theory Spec2Isabelle
  imports Complex_Main "HOL-Library.Char_ord" "HOL-Library.List_Lexorder"
begin

section \<open>Values of the host language\<close>

text \<open>
  Optional fields of the TypeScript types (\<^verbatim>\<open>clientInfo?: string\<close>, \<^verbatim>\<open>expires_in?: number\<close>)
  are \<open>option\<close> values. The source tests them with \<^verbatim>\<open>!x\<close>, \<^verbatim>\<open>if (x)\<close> and \<^verbatim>\<open>x || y\<close>, which
  take \<^verbatim>\<open>undefined\<close>, the empty string and the number 0 alike as false. \<open>truthyString\<close> and
  \<open>truthyNumber\<close> return the value when the test passes. Numbers are rationals: the
  clock reading \<^verbatim>\<open>new Date().getTime() / 1000\<close> is a fraction of seconds and is added
  exactly; NaN and the rounding of doubles are outside the model.
\<close>

fun truthyString :: "string option \<Rightarrow> string option" where
  "truthyString None = None"
| "truthyString (Some s) = (if s = [] then None else Some s)"

fun truthyNumber :: "rat option \<Rightarrow> rat option" where
  "truthyNumber None = None"
| "truthyNumber (Some n) = (if n = 0 then None else Some n)"

section \<open>Programs that write to the store and may throw\<close>

text \<open>
  A method of the source runs on the store of the storage adapter, and either returns
  a value or throws. A throw keeps the store as it is at that moment: what was written
  before stays written.
\<close>

type_synonym ('e, 's, 'a) prog = "'s \<Rightarrow> ('e + 'a) \<times> 's"

definition returnE :: "'a \<Rightarrow> ('e, 's, 'a) prog" where
  "returnE x = (\<lambda>s. (Inr x, s))"

definition throwE :: "'e \<Rightarrow> ('e, 's, 'a) prog" where
  "throwE e = (\<lambda>s. (Inl e, s))"

definition bindE :: "('e, 's, 'a) prog \<Rightarrow> ('a \<Rightarrow> ('e, 's, 'b) prog) \<Rightarrow> ('e, 's, 'b) prog" where
  "bindE m f = (\<lambda>s. case m s of (Inl e, s') \<Rightarrow> (Inl e, s') | (Inr x, s') \<Rightarrow> f x s')"

definition tryCatch :: "('e, 's, 'a) prog \<Rightarrow> ('e \<Rightarrow> ('e, 's, 'a) prog) \<Rightarrow> ('e, 's, 'a) prog" where
  "tryCatch m h = (\<lambda>s. case m s of (Inl e, s') \<Rightarrow> h e s' | (Inr x, s') \<Rightarrow> (Inr x, s'))"

definition queryE :: "('s \<Rightarrow> 'e + 'a) \<Rightarrow> ('e, 's, 'a) prog" where
  "queryE f = (\<lambda>s. case f s of Inl e \<Rightarrow> (Inl e, s) | Inr x \<Rightarrow> (Inr x, s))"

definition modifyE :: "('s \<Rightarrow> 's) \<Rightarrow> ('e, 's, unit) prog" where
  "modifyE f = (\<lambda>s. (Inr (), f s))"

definition attemptE :: "('s \<Rightarrow> 'e + 's) \<Rightarrow> ('e, 's, unit) prog" where
  "attemptE f = (\<lambda>s. case f s of Inl e \<Rightarrow> (Inl e, s) | Inr s' \<Rightarrow> (Inr (), s'))"

section \<open>Data model\<close>

record AccountInfo =
  homeAccountId :: string
  environment :: string
  tenantId :: string
  username :: string
  localAccountId :: string

typedecl AzureCloudOptions

record SilentRequest =
  account :: "AccountInfo option"
  authority :: "string option"
  scopes :: "string list"
  azureCloudOptions :: "AzureCloudOptions option"

record ExternalTokenResponse =
  id_token :: "string option"
  client_info :: "string option"
  access_token :: "string option"
  expires_in :: "rat option"
  refresh_token :: "string option"

record LoadTokenOptions =
  clientInfo :: "string option"
  expiresOn :: "rat option"
  extendedExpiresOn :: "rat option"

text \<open>\<^verbatim>\<open>AuthorityType\<close> is a numeric enum of the common library.\<close>

type_synonym AuthorityType = nat

text \<open>
  What the source reads of an \<^verbatim>\<open>Authority\<close> object: \<^verbatim>\<open>hostnameAndPort\<close>, \<^verbatim>\<open>tenant\<close> and
  \<^verbatim>\<open>authorityType\<close>.
\<close>

record Authority =
  hostnameAndPort :: string
  tenant :: string
  authorityType :: AuthorityType

text \<open>
  Modelled from the spec: the entity classes of the common library (\<^verbatim>\<open>AuthToken\<close>,
  \<^verbatim>\<open>AccountEntity\<close>, \<^verbatim>\<open>IdTokenEntity\<close>, \<^verbatim>\<open>AccessTokenEntity\<close>, \<^verbatim>\<open>RefreshTokenEntity\<close>,
  \<^verbatim>\<open>CacheRecord\<close>) are imported by the source and not part of it. An entity is the
  factory call that built it, with the arguments the source passes: a "full" account is
  built by \<^verbatim>\<open>createAccount\<close> from client-info and the ID-token claims, a "generic" one by
  \<^verbatim>\<open>createGenericAccount\<close> from the claims only.
\<close>

datatype AuthToken = AuthToken (rawToken: string)

datatype AccountEntity =
    createAccount string string AuthToken string
  | createGenericAccount string AuthToken string

fun accountHomeAccountId :: "AccountEntity \<Rightarrow> string" where
  "accountHomeAccountId (createAccount ci h tok env) = h"
| "accountHomeAccountId (createGenericAccount h tok env) = h"

fun isFullAccount :: "AccountEntity \<Rightarrow> bool" where
  "isFullAccount (createAccount ci h tok env) = True"
| "isFullAccount (createGenericAccount h tok env) = False"

record IdTokenEntity =
  it_homeAccountId :: string
  it_environment :: string
  it_secret :: string
  it_clientId :: string
  it_realm :: string

record AccessTokenEntity =
  at_homeAccountId :: string
  at_environment :: string
  at_secret :: string
  at_clientId :: string
  at_realm :: string
  at_target :: string
  at_expiresOn :: rat
  at_extendedExpiresOn :: rat

record RefreshTokenEntity =
  rt_homeAccountId :: string
  rt_environment :: string
  rt_secret :: string
  rt_clientId :: string

record CacheRecord =
  cr_account :: AccountEntity
  cr_idToken :: IdTokenEntity
  cr_accessToken :: "AccessTokenEntity option"
  cr_refreshToken :: "RefreshTokenEntity option"

definition createIdTokenEntity :: "string \<Rightarrow> string \<Rightarrow> string \<Rightarrow> string \<Rightarrow> string \<Rightarrow> IdTokenEntity" where
  "createIdTokenEntity h env idToken cid tid =
     \<lparr>it_homeAccountId = h, it_environment = env, it_secret = idToken, it_clientId = cid,
      it_realm = tid\<rparr>"

definition createAccessTokenEntity ::
  "string \<Rightarrow> string \<Rightarrow> string \<Rightarrow> string \<Rightarrow> string \<Rightarrow> string \<Rightarrow> rat \<Rightarrow> rat \<Rightarrow> AccessTokenEntity" where
  "createAccessTokenEntity h env accessToken cid tid scopeString expOn extOn =
     \<lparr>at_homeAccountId = h, at_environment = env, at_secret = accessToken, at_clientId = cid,
      at_realm = tid, at_target = scopeString, at_expiresOn = expOn, at_extendedExpiresOn = extOn\<rparr>"

definition createRefreshTokenEntity :: "string \<Rightarrow> string \<Rightarrow> string \<Rightarrow> string \<Rightarrow> RefreshTokenEntity" where
  "createRefreshTokenEntity h env refreshToken cid =
     \<lparr>rt_homeAccountId = h, rt_environment = env, rt_secret = refreshToken, rt_clientId = cid\<rparr>"

subsection \<open>Scope canonicalisation and the access-token key\<close>

text \<open>
  Modelled from the spec: \<^verbatim>\<open>ScopeSet\<close>, its \<^verbatim>\<open>printScopes\<close> and the key derivation of an
  access-token entity belong to the common library and are not in the source. The spec
  says that scopes are canonicalized (deduplicated, case-insensitive, stably ordered)
  before key derivation, and that a key is built from the lower-cased, delimiter-joined
  fields homeAccountId, environment, clientId, realm and the normalized scope string.
\<close>

definition toLowerCaseChar :: "char \<Rightarrow> char" where
  "toLowerCaseChar c =
     (case map_of (zip ''ABCDEFGHIJKLMNOPQRSTUVWXYZ'' ''abcdefghijklmnopqrstuvwxyz'') c of
        Some l \<Rightarrow> l
      | None \<Rightarrow> c)"

definition toLowerCase :: "string \<Rightarrow> string" where
  "toLowerCase s = map toLowerCaseChar s"

fun joinStrings :: "string \<Rightarrow> string list \<Rightarrow> string" where
  "joinStrings sep [] = []"
| "joinStrings sep [x] = x"
| "joinStrings sep (x # y # ys) = x @ sep @ joinStrings sep (y # ys)"

definition printScopes :: "string list \<Rightarrow> string" where
  "printScopes inputScopes = joinStrings '' '' (sort (remdups (map toLowerCase inputScopes)))"

definition generateAccessTokenKey :: "AccessTokenEntity \<Rightarrow> string" where
  "generateAccessTokenKey a =
     toLowerCase (joinStrings ''-''
       [at_homeAccountId a, at_environment a, at_clientId a, at_realm a, at_target a])"

section \<open>Collaborators\<close>

text \<open>
  Modelled from the spec: the storage adapter (\<^verbatim>\<open>BrowserCacheManager\<close>) is not in the
  source. It is given by its operations on a store \<open>'s\<close>. The operations that
  \<^verbatim>\<open>clearCacheOnLogout\<close> calls may throw an \<open>'e\<close>, and one that throws leaves the store as
  it found it (a removal failure leaves the "cache unchanged"). The four writes of an
  ingestion return: the source does not catch their failures, and the properties of the
  ingestion below are about the failures it raises itself.
\<close>

record ('e, 's) BrowserCacheManager =
  setAccount :: "AccountEntity \<Rightarrow> 's \<Rightarrow> 's"
  setIdTokenCredential :: "IdTokenEntity \<Rightarrow> 's \<Rightarrow> 's"
  setAccessTokenCredential :: "AccessTokenEntity \<Rightarrow> 's \<Rightarrow> 's"
  setRefreshTokenCredential :: "RefreshTokenEntity \<Rightarrow> 's \<Rightarrow> 's"
  getActiveAccount :: "'s \<Rightarrow> 'e + AccountInfo option"
  setActiveAccount :: "AccountInfo option \<Rightarrow> 's \<Rightarrow> 'e + 's"
  removeAccount :: "string \<Rightarrow> 's \<Rightarrow> 'e + 's"
  clear :: "'s \<Rightarrow> 'e + 's"

text \<open>The cryptographic provider: only \<^verbatim>\<open>clearKeystore\<close> is called here.\<close>

record ('e, 's) ICrypto =
  clearKeystore :: "'s \<Rightarrow> 'e + 's"

text \<open>
  The static functions of the common library that the source calls and that are not part
  of it are parameters: \<^verbatim>\<open>new Authority(Authority.generateAuthority(...), ...)\<close> with the
  configured authority options, \<^verbatim>\<open>AccountEntity.generateHomeAccountId\<close>,
  \<^verbatim>\<open>AccountEntity.accountInfoIsEqual\<close> and \<^verbatim>\<open>AccountEntity.generateAccountCacheKey\<close>.
\<close>

record MsalCommon =
  newAuthority :: "string \<Rightarrow> AzureCloudOptions option \<Rightarrow> Authority"
  generateHomeAccountId :: "string \<Rightarrow> AuthorityType \<Rightarrow> AuthToken \<Rightarrow> string"
  accountInfoIsEqual :: "AccountInfo \<Rightarrow> AccountInfo option \<Rightarrow> bool \<Rightarrow> bool"
  generateAccountCacheKey :: "AccountInfo \<Rightarrow> string"

section \<open>Token cache: loadExternalTokens\<close>

text \<open>
  Every failure of the source is \<^verbatim>\<open>BrowserAuthError.createUnableToLoadTokenError(msg)\<close>;
  the constructors stand for its messages:
  \<^item> \<open>MissingIdToken\<close>: "Please ensure server response includes id token."
  \<^item> \<open>MissingAccountOrAuthority\<close>: "Please provide a request with an account or a request
    with authority."
  \<^item> \<open>MissingClientInfo\<close>: "Please provide clientInfo in the response or options."
  \<^item> \<open>UnresolvedIdentity\<close>: "Unexpected missing homeAccountId"
  \<^item> \<open>MissingExpiry ExpiresIn\<close>: "Please ensure server response includes expires_in value."
  \<^item> \<open>MissingExpiry ExtendedExpiresOn\<close>: "Please provide an extendedExpiresOn value in the
    options."
  \<^item> \<open>UnsupportedEnvironment\<close>: "loadExternalTokens is designed to work in browser
    environments only."
\<close>

datatype expiry_field = ExpiresIn | ExtendedExpiresOn

datatype load_error =
    MissingIdToken
  | MissingAccountOrAuthority
  | MissingClientInfo
  | UnresolvedIdentity
  | MissingExpiry expiry_field
  | UnsupportedEnvironment

text \<open>
  The fields of \<^verbatim>\<open>TokenCache\<close> that the methods read: the environment flag set by the
  constructor, \<^verbatim>\<open>config.auth.clientId\<close> and the storage adapter. Calls of the logger only
  print and are left out.
\<close>

record ('e, 's) TokenCache =
  isBrowserEnvironment :: bool
  clientId :: string
  storage :: "('e, 's) BrowserCacheManager"

definition loadAccount ::
  "MsalCommon \<Rightarrow> ('e, 's) TokenCache \<Rightarrow> string \<Rightarrow> string \<Rightarrow> string option \<Rightarrow>
   AuthorityType option \<Rightarrow> string option \<Rightarrow> (load_error, 's, AccountEntity) prog" where
  "loadAccount lib tc idToken env ci aty requestHomeAccountId =
     (let idAuthToken = AuthToken idToken;
          hid =
            (case truthyString requestHomeAccountId of
               Some h \<Rightarrow> Some h
             | None \<Rightarrow>
                 (case aty of
                    None \<Rightarrow> None
                  | Some t \<Rightarrow>
                      (case truthyString ci of
                         None \<Rightarrow> None
                       | Some c \<Rightarrow> Some (generateHomeAccountId lib c t idAuthToken))))
      in case truthyString hid of
           None \<Rightarrow> throwE UnresolvedIdentity
         | Some h \<Rightarrow>
             (let accountEntity =
                    (case truthyString ci of
                       Some c \<Rightarrow> createAccount c h idAuthToken env
                     | None \<Rightarrow> createGenericAccount h idAuthToken env)
              in if isBrowserEnvironment tc
                 then bindE (modifyE (setAccount (storage tc) accountEntity))
                        (\<lambda>_. returnE accountEntity)
                 else throwE UnsupportedEnvironment))"

definition loadIdToken ::
  "('e, 's) TokenCache \<Rightarrow> string \<Rightarrow> string \<Rightarrow> string \<Rightarrow> string \<Rightarrow>
   (load_error, 's, IdTokenEntity) prog" where
  "loadIdToken tc idToken h env tid =
     (let idTokenEntity = createIdTokenEntity h env idToken (clientId tc) tid
      in if isBrowserEnvironment tc
         then bindE (modifyE (setIdTokenCredential (storage tc) idTokenEntity))
                (\<lambda>_. returnE idTokenEntity)
         else throwE UnsupportedEnvironment)"

text \<open>\<open>now\<close> is the clock reading \<^verbatim>\<open>new Date().getTime() / 1000\<close>.\<close>

definition loadAccessToken ::
  "('e, 's) TokenCache \<Rightarrow> rat \<Rightarrow> SilentRequest \<Rightarrow> ExternalTokenResponse \<Rightarrow> string \<Rightarrow> string \<Rightarrow>
   string \<Rightarrow> LoadTokenOptions \<Rightarrow> (load_error, 's, AccessTokenEntity option) prog" where
  "loadAccessToken tc now request response h env tid options =
     (case truthyString (access_token response) of
        None \<Rightarrow> returnE None
      | Some tok \<Rightarrow>
          (case truthyNumber (expires_in response) of
             None \<Rightarrow> throwE (MissingExpiry ExpiresIn)
           | Some ein \<Rightarrow>
               (case truthyNumber (extendedExpiresOn options) of
                  None \<Rightarrow> throwE (MissingExpiry ExtendedExpiresOn)
                | Some extOn \<Rightarrow>
                    (let scopeString = printScopes (scopes request);
                         expOn = (case truthyNumber (expiresOn options) of
                                    Some e \<Rightarrow> e
                                  | None \<Rightarrow> ein + now);
                         accessTokenEntity =
                           createAccessTokenEntity h env tok (clientId tc) tid scopeString expOn extOn
                     in if isBrowserEnvironment tc
                        then bindE (modifyE (setAccessTokenCredential (storage tc) accessTokenEntity))
                               (\<lambda>_. returnE (Some accessTokenEntity))
                        else throwE UnsupportedEnvironment))))"

definition loadRefreshToken ::
  "('e, 's) TokenCache \<Rightarrow> SilentRequest \<Rightarrow> ExternalTokenResponse \<Rightarrow> string \<Rightarrow> string \<Rightarrow>
   (load_error, 's, RefreshTokenEntity option) prog" where
  "loadRefreshToken tc request response h env =
     (case truthyString (refresh_token response) of
        None \<Rightarrow> returnE None
      | Some tok \<Rightarrow>
          (let refreshTokenEntity = createRefreshTokenEntity h env tok (clientId tc)
           in if isBrowserEnvironment tc
              then bindE (modifyE (setRefreshTokenCredential (storage tc) refreshTokenEntity))
                     (\<lambda>_. returnE (Some refreshTokenEntity))
              else throwE UnsupportedEnvironment))"

text \<open>
  The expression \<^verbatim>\<open>new CacheRecord(cacheRecordAccount, this.loadIdToken(...),
  this.loadAccessToken(...), this.loadRefreshToken(...))\<close>, which the source writes three
  times with the same shape: the arguments are evaluated from left to right.
\<close>

definition newCacheRecord ::
  "('e, 's) TokenCache \<Rightarrow> rat \<Rightarrow> SilentRequest \<Rightarrow> ExternalTokenResponse \<Rightarrow> LoadTokenOptions \<Rightarrow>
   string \<Rightarrow> AccountEntity \<Rightarrow> string \<Rightarrow> string \<Rightarrow> (load_error, 's, CacheRecord) prog" where
  "newCacheRecord tc now request response options idToken cacheRecordAccount env tid =
     bindE (loadIdToken tc idToken (accountHomeAccountId cacheRecordAccount) env tid) (\<lambda>i.
     bindE (loadAccessToken tc now request response (accountHomeAccountId cacheRecordAccount)
              env tid options) (\<lambda>a.
     bindE (loadRefreshToken tc request response (accountHomeAccountId cacheRecordAccount) env)
       (\<lambda>r.
     returnE \<lparr>cr_account = cacheRecordAccount, cr_idToken = i, cr_accessToken = a,
              cr_refreshToken = r\<rparr>)))"

definition loadExternalTokens ::
  "MsalCommon \<Rightarrow> ('e, 's) TokenCache \<Rightarrow> rat \<Rightarrow> SilentRequest \<Rightarrow> ExternalTokenResponse \<Rightarrow>
   LoadTokenOptions \<Rightarrow> (load_error, 's, CacheRecord) prog" where
  "loadExternalTokens lib tc now request response options =
     (case truthyString (id_token response) of
        None \<Rightarrow> throwE MissingIdToken
      | Some idToken \<Rightarrow>
          (case account request of
             Some acct \<Rightarrow>
               bindE (loadAccount lib tc idToken (environment acct) None None
                        (Some (homeAccountId acct)))
                 (\<lambda>cacheRecordAccount.
                    newCacheRecord tc now request response options idToken cacheRecordAccount
                      (environment acct) (tenantId acct))
           | None \<Rightarrow>
               (case truthyString (authority request) of
                  Some authorityString \<Rightarrow>
                    (let auth = newAuthority lib authorityString (azureCloudOptions request)
                     in case truthyString (clientInfo options) of
                          Some c \<Rightarrow>
                            bindE (loadAccount lib tc idToken (hostnameAndPort auth) (Some c)
                                     (Some (authorityType auth)) None)
                              (\<lambda>cacheRecordAccount.
                                 newCacheRecord tc now request response options idToken
                                   cacheRecordAccount (hostnameAndPort auth) (tenant auth))
                        | None \<Rightarrow>
                            (case truthyString (client_info response) of
                               Some c \<Rightarrow>
                                 bindE (loadAccount lib tc idToken (hostnameAndPort auth) (Some c)
                                          (Some (authorityType auth)) None)
                                   (\<lambda>cacheRecordAccount.
                                      newCacheRecord tc now request response options idToken
                                        cacheRecordAccount (hostnameAndPort auth) (tenant auth))
                             | None \<Rightarrow> throwE MissingClientInfo))
                | None \<Rightarrow> throwE MissingAccountOrAuthority)))"

section \<open>Base interaction client: clearCacheOnLogout\<close>

record ('e, 's) BaseInteractionClient =
  browserStorage :: "('e, 's) BrowserCacheManager"
  browserCrypto :: "('e, 's) ICrypto"

definition clearCacheOnLogout ::
  "MsalCommon \<Rightarrow> ('e, 's) BaseInteractionClient \<Rightarrow> AccountInfo option \<Rightarrow> ('e, 's, unit) prog" where
  "clearCacheOnLogout lib ic acct =
     (case acct of
        Some a \<Rightarrow>
          bindE (queryE (getActiveAccount (browserStorage ic))) (\<lambda>active.
          bindE (if accountInfoIsEqual lib a active False
                 then attemptE (setActiveAccount (browserStorage ic) None)
                 else returnE ()) (\<lambda>_.
          tryCatch
            (attemptE (removeAccount (browserStorage ic) (generateAccountCacheKey lib a)))
            (\<lambda>error. returnE ())))
      | None \<Rightarrow>
          tryCatch
            (bindE (attemptE (clear (browserStorage ic)))
               (\<lambda>_. attemptE (clearKeystore (browserCrypto ic))))
            (\<lambda>e. returnE ()))"

section \<open>Notions used to state the properties\<close>

text \<open>
  The client-info an ingestion from an authority works with: \<^verbatim>\<open>options.clientInfo\<close> when it
  passes the test of the source, otherwise \<^verbatim>\<open>response.client_info\<close>.
\<close>

definition chosenClientInfo :: "LoadTokenOptions \<Rightarrow> ExternalTokenResponse \<Rightarrow> string option" where
  "chosenClientInfo options response =
     (case truthyString (clientInfo options) of
        Some c \<Rightarrow> Some c
      | None \<Rightarrow> truthyString (client_info response))"

text \<open>
  The account entity that an ingestion resolves, with the environment and the realm that
  go with it, following the spec: an account on the request gives its own identity,
  environment and tenant; otherwise the authority of the request gives environment and
  realm, and the identity is derived from the chosen client-info, the type of the
  authority and the ID token. The value is \<open>None\<close> when the ID token, the account and
  authority, or the client-info are missing, or when the identity is empty.
\<close>

definition resolvedAccount ::
  "MsalCommon \<Rightarrow> SilentRequest \<Rightarrow> ExternalTokenResponse \<Rightarrow> LoadTokenOptions \<Rightarrow>
   (AccountEntity \<times> string \<times> string) option" where
  "resolvedAccount lib request response options =
     (case truthyString (id_token response) of
        None \<Rightarrow> None
      | Some idToken \<Rightarrow>
          (case account request of
             Some acct \<Rightarrow>
               (if homeAccountId acct = [] then None
                else Some (createGenericAccount (homeAccountId acct) (AuthToken idToken)
                             (environment acct),
                           environment acct, tenantId acct))
           | None \<Rightarrow>
               (case truthyString (authority request) of
                  None \<Rightarrow> None
                | Some a \<Rightarrow>
                    (case chosenClientInfo options response of
                       None \<Rightarrow> None
                     | Some c \<Rightarrow>
                         (let auth = newAuthority lib a (azureCloudOptions request);
                              h = generateHomeAccountId lib c (authorityType auth)
                                    (AuthToken idToken)
                          in if h = [] then None
                             else Some (createAccount c h (AuthToken idToken)
                                          (hostnameAndPort auth),
                                        hostnameAndPort auth, tenant auth))))))"

text \<open>
  The first precondition an input violates, in the order in which the source checks:
  ID token, account or authority, client-info, resolved identity, environment, expiry
  of the access token.
\<close>

definition firstViolation ::
  "MsalCommon \<Rightarrow> ('e, 's) TokenCache \<Rightarrow> SilentRequest \<Rightarrow> ExternalTokenResponse \<Rightarrow>
   LoadTokenOptions \<Rightarrow> load_error option" where
  "firstViolation lib tc request response options =
     (if truthyString (id_token response) = None then Some MissingIdToken
      else if account request = None \<and> truthyString (authority request) = None
        then Some MissingAccountOrAuthority
      else if account request = None \<and> chosenClientInfo options response = None
        then Some MissingClientInfo
      else if resolvedAccount lib request response options = None
        then Some UnresolvedIdentity
      else if \<not> isBrowserEnvironment tc then Some UnsupportedEnvironment
      else if truthyString (access_token response) = None then None
      else if truthyNumber (expires_in response) = None then Some (MissingExpiry ExpiresIn)
      else if truthyNumber (extendedExpiresOn options) = None
        then Some (MissingExpiry ExtendedExpiresOn)
      else None)"

section \<open>Example collaborators and inputs\<close>

text \<open>
  A storage adapter that records the calls it receives, most recent first, one whose
  removal and clearing throw, and one whose active account cannot be read; a library whose
  home-account identity is the client-info string; a cache in a browser and one outside.
\<close>

datatype storage_call =
    SetAccount AccountEntity
  | SetIdTokenCredential IdTokenEntity
  | SetAccessTokenCredential AccessTokenEntity
  | SetRefreshTokenCredential RefreshTokenEntity
  | SetActiveAccount "AccountInfo option"
  | RemoveAccount string
  | Clear
  | ClearKeystore

fun activeAccountOf :: "storage_call list \<Rightarrow> AccountInfo option" where
  "activeAccountOf [] = None"
| "activeAccountOf (SetActiveAccount a # cs) = a"
| "activeAccountOf (Clear # cs) = None"
| "activeAccountOf (c # cs) = activeAccountOf cs"

definition recordingStorage :: "(string, storage_call list) BrowserCacheManager" where
  "recordingStorage =
     \<lparr>setAccount = (\<lambda>e s. SetAccount e # s),
      setIdTokenCredential = (\<lambda>e s. SetIdTokenCredential e # s),
      setAccessTokenCredential = (\<lambda>e s. SetAccessTokenCredential e # s),
      setRefreshTokenCredential = (\<lambda>e s. SetRefreshTokenCredential e # s),
      getActiveAccount = (\<lambda>s. Inr (activeAccountOf s)),
      setActiveAccount = (\<lambda>a s. Inr (SetActiveAccount a # s)),
      removeAccount = (\<lambda>k s. Inr (RemoveAccount k # s)),
      clear = (\<lambda>s. Inr (Clear # s))\<rparr>"

definition throwingStorage :: "(string, storage_call list) BrowserCacheManager" where
  "throwingStorage =
     recordingStorage
       \<lparr>removeAccount := (\<lambda>k s. Inl ''no_account_found''),
        clear := (\<lambda>s. Inl ''clear_failed'')\<rparr>"

definition unreadableStorage :: "(string, storage_call list) BrowserCacheManager" where
  "unreadableStorage =
     recordingStorage\<lparr>getActiveAccount := (\<lambda>s. Inl ''storage_unavailable'')\<rparr>"

definition recordingCrypto :: "(string, storage_call list) ICrypto" where
  "recordingCrypto = \<lparr>clearKeystore = (\<lambda>s. Inr (ClearKeystore # s))\<rparr>"

definition throwingCrypto :: "(string, storage_call list) ICrypto" where
  "throwingCrypto = \<lparr>clearKeystore = (\<lambda>s. Inl ''keystore_failed'')\<rparr>"

definition recordingClient :: "(string, storage_call list) BaseInteractionClient" where
  "recordingClient = \<lparr>browserStorage = recordingStorage, browserCrypto = recordingCrypto\<rparr>"

definition throwingClient :: "(string, storage_call list) BaseInteractionClient" where
  "throwingClient = \<lparr>browserStorage = throwingStorage, browserCrypto = throwingCrypto\<rparr>"

definition unreadableClient :: "(string, storage_call list) BaseInteractionClient" where
  "unreadableClient = \<lparr>browserStorage = unreadableStorage, browserCrypto = recordingCrypto\<rparr>"

definition keystoreThrowingClient :: "(string, storage_call list) BaseInteractionClient" where
  "keystoreThrowingClient = \<lparr>browserStorage = recordingStorage, browserCrypto = throwingCrypto\<rparr>"

definition exampleLib :: MsalCommon where
  "exampleLib =
     \<lparr>newAuthority = (\<lambda>url cloud.
        \<lparr>hostnameAndPort = ''login.example.com'', tenant = ''common'', authorityType = 0\<rparr>),
      generateHomeAccountId = (\<lambda>c t tok. c),
      accountInfoIsEqual = (\<lambda>a b compareClaims. b = Some a),
      generateAccountCacheKey = (\<lambda>a. homeAccountId a @ ''-'' @ environment a @ ''-'' @ tenantId a)\<rparr>"

definition browserCache :: "(string, storage_call list) TokenCache" where
  "browserCache = \<lparr>isBrowserEnvironment = True, clientId = ''app'', storage = recordingStorage\<rparr>"

definition serverCache :: "(string, storage_call list) TokenCache" where
  "serverCache = \<lparr>isBrowserEnvironment = False, clientId = ''app'', storage = recordingStorage\<rparr>"

definition exampleAccount :: AccountInfo where
  "exampleAccount =
     \<lparr>homeAccountId = ''uid.utid'', environment = ''login.example.com'', tenantId = ''utid'',
      username = ''user'', localAccountId = ''uid''\<rparr>"

definition accountRequest :: SilentRequest where
  "accountRequest =
     \<lparr>account = Some exampleAccount, authority = None, scopes = [''User.Read''],
      azureCloudOptions = None\<rparr>"

definition authorityRequest :: SilentRequest where
  "authorityRequest =
     \<lparr>account = None, authority = Some ''https://login.example.com/common'',
      scopes = [''User.Read''], azureCloudOptions = None\<rparr>"

definition responseNoExpiry :: ExternalTokenResponse where
  "responseNoExpiry =
     \<lparr>id_token = Some ''jwt'', client_info = Some ''b64'', access_token = Some ''AT1'',
      expires_in = None, refresh_token = Some ''RT1''\<rparr>"

definition noOptions :: LoadTokenOptions where
  "noOptions = \<lparr>clientInfo = None, expiresOn = None, extendedExpiresOn = None\<rparr>"

definition responseFull :: ExternalTokenResponse where
  "responseFull =
     \<lparr>id_token = Some ''jwt'', client_info = Some ''b64'', access_token = Some ''AT1'',
      expires_in = Some 3600, refresh_token = Some ''RT1''\<rparr>"

definition optionsExtended :: LoadTokenOptions where
  "optionsExtended = \<lparr>clientInfo = None, expiresOn = None, extendedExpiresOn = Some 8200\<rparr>"

definition optionsClientInfo :: LoadTokenOptions where
  "optionsClientInfo =
     \<lparr>clientInfo = Some ''opt'', expiresOn = Some 0, extendedExpiresOn = Some 8200\<rparr>"

definition responseIdOnly :: ExternalTokenResponse where
  "responseIdOnly =
     \<lparr>id_token = Some ''jwt'', client_info = Some ''b64'', access_token = None,
      expires_in = None, refresh_token = None\<rparr>"

definition responseZeroExpiry :: ExternalTokenResponse where
  "responseZeroExpiry =
     \<lparr>id_token = Some ''jwt'', client_info = Some ''b64'', access_token = Some ''AT1'',
      expires_in = Some 0, refresh_token = Some ''RT1''\<rparr>"

section \<open>The steps of an ingestion\<close>

lemmas prog_defs = returnE_def throwE_def bindE_def tryCatch_def queryE_def modifyE_def attemptE_def

lemma truthyString_Some_iff: "truthyString x = Some s \<longleftrightarrow> x = Some s \<and> s \<noteq> []"
  by (cases x) auto

lemma truthyNumber_Some_iff: "truthyNumber x = Some n \<longleftrightarrow> x = Some n \<and> n \<noteq> 0"
  by (cases x) auto

lemma loadAccount_fromRequest:
  "loadAccount lib tc idToken env None None (Some h) s =
     (if h = [] then (Inl UnresolvedIdentity, s)
      else if isBrowserEnvironment tc
        then (Inr (createGenericAccount h (AuthToken idToken) env),
              setAccount (storage tc) (createGenericAccount h (AuthToken idToken) env) s)
      else (Inl UnsupportedEnvironment, s))"
  by (simp add: loadAccount_def prog_defs Let_def)

lemma loadAccount_fromClientInfo:
  "c \<noteq> [] \<Longrightarrow>
   loadAccount lib tc idToken env (Some c) (Some t) None s =
     (if generateHomeAccountId lib c t (AuthToken idToken) = [] then (Inl UnresolvedIdentity, s)
      else if isBrowserEnvironment tc
        then (Inr (createAccount c (generateHomeAccountId lib c t (AuthToken idToken))
                     (AuthToken idToken) env),
              setAccount (storage tc)
                (createAccount c (generateHomeAccountId lib c t (AuthToken idToken))
                   (AuthToken idToken) env) s)
      else (Inl UnsupportedEnvironment, s))"
  by (simp add: loadAccount_def prog_defs Let_def)

lemma loadExternalTokens_resolved:
  assumes "resolvedAccount lib request response options = Some (acc, env, tid)"
  shows "\<exists>idToken. truthyString (id_token response) = Some idToken \<and>
     loadExternalTokens lib tc now request response options s =
       (if isBrowserEnvironment tc
        then newCacheRecord tc now request response options idToken acc env tid
               (setAccount (storage tc) acc s)
        else (Inl UnsupportedEnvironment, s))"
  using assms
  unfolding loadExternalTokens_def resolvedAccount_def chosenClientInfo_def
  by (auto simp: truthyString_Some_iff loadAccount_fromRequest loadAccount_fromClientInfo
        bindE_def Let_def throwE_def
      split: option.splits if_splits)

lemma loadExternalTokens_unresolved:
  assumes "resolvedAccount lib request response options = None"
  shows "loadExternalTokens lib tc now request response options s =
     (if truthyString (id_token response) = None then (Inl MissingIdToken, s)
      else if account request = None \<and> truthyString (authority request) = None
        then (Inl MissingAccountOrAuthority, s)
      else if account request = None \<and> chosenClientInfo options response = None
        then (Inl MissingClientInfo, s)
      else (Inl UnresolvedIdentity, s))"
  using assms
  unfolding loadExternalTokens_def resolvedAccount_def chosenClientInfo_def
  by (auto simp: truthyString_Some_iff loadAccount_fromRequest loadAccount_fromClientInfo
        bindE_def Let_def throwE_def
      split: option.splits if_splits)


lemmas example_defs = recordingStorage_def exampleLib_def browserCache_def serverCache_def
  exampleAccount_def accountRequest_def authorityRequest_def responseNoExpiry_def noOptions_def

lemmas input_defs = responseFull_def optionsExtended_def optionsClientInfo_def
  responseIdOnly_def responseZeroExpiry_def

lemmas client_defs = throwingStorage_def unreadableStorage_def recordingCrypto_def
  throwingCrypto_def recordingClient_def throwingClient_def keystoreThrowingClient_def
  unreadableClient_def

lemmas load_defs = loadExternalTokens_def newCacheRecord_def loadAccount_def loadIdToken_def
  loadAccessToken_def loadRefreshToken_def createIdTokenEntity_def createAccessTokenEntity_def
  createRefreshTokenEntity_def Let_def

lemma loadIdToken_browser:
  "isBrowserEnvironment tc \<Longrightarrow>
   loadIdToken tc idToken h env tid s =
     (Inr (createIdTokenEntity h env idToken (clientId tc) tid),
      setIdTokenCredential (storage tc) (createIdTokenEntity h env idToken (clientId tc) tid) s)"
  by (simp add: loadIdToken_def prog_defs Let_def)

lemma loadAccessToken_absent:
  "truthyString (access_token response) = None \<Longrightarrow>
   loadAccessToken tc now request response h env tid options s = (Inr None, s)"
  by (simp add: loadAccessToken_def returnE_def)

lemma loadAccessToken_noExpiresIn:
  "truthyString (access_token response) \<noteq> None \<Longrightarrow> truthyNumber (expires_in response) = None \<Longrightarrow>
   loadAccessToken tc now request response h env tid options s = (Inl (MissingExpiry ExpiresIn), s)"
  by (auto simp: loadAccessToken_def throwE_def)

lemma loadAccessToken_noExtendedExpiresOn:
  "truthyString (access_token response) \<noteq> None \<Longrightarrow> truthyNumber (expires_in response) \<noteq> None \<Longrightarrow>
   truthyNumber (extendedExpiresOn options) = None \<Longrightarrow>
   loadAccessToken tc now request response h env tid options s =
     (Inl (MissingExpiry ExtendedExpiresOn), s)"
  by (auto simp: loadAccessToken_def throwE_def)

lemma loadAccessToken_browser:
  "isBrowserEnvironment tc \<Longrightarrow> truthyString (access_token response) = Some tok \<Longrightarrow>
   truthyNumber (expires_in response) = Some ein \<Longrightarrow>
   truthyNumber (extendedExpiresOn options) = Some extOn \<Longrightarrow>
   loadAccessToken tc now request response h env tid options s =
     (Inr (Some (createAccessTokenEntity h env tok (clientId tc) tid (printScopes (scopes request))
             (case truthyNumber (expiresOn options) of Some e \<Rightarrow> e | None \<Rightarrow> ein + now) extOn)),
      setAccessTokenCredential (storage tc)
        (createAccessTokenEntity h env tok (clientId tc) tid (printScopes (scopes request))
           (case truthyNumber (expiresOn options) of Some e \<Rightarrow> e | None \<Rightarrow> ein + now) extOn) s)"
  by (simp add: loadAccessToken_def prog_defs Let_def)

lemma loadRefreshToken_browser:
  "isBrowserEnvironment tc \<Longrightarrow>
   loadRefreshToken tc request response h env s =
     (case truthyString (refresh_token response) of
        None \<Rightarrow> (Inr None, s)
      | Some tok \<Rightarrow>
          (Inr (Some (createRefreshTokenEntity h env tok (clientId tc))),
           setRefreshTokenCredential (storage tc)
             (createRefreshTokenEntity h env tok (clientId tc)) s))"
  by (simp add: loadRefreshToken_def prog_defs Let_def split: option.splits)

lemma newCacheRecord_nonbrowser:
  "\<not> isBrowserEnvironment tc \<Longrightarrow>
   newCacheRecord tc now request response options idToken acc env tid s =
     (Inl UnsupportedEnvironment, s)"
  by (simp add: newCacheRecord_def loadIdToken_def bindE_def throwE_def Let_def)

lemma newCacheRecord_browser_failure:
  assumes "isBrowserEnvironment tc"
  shows "fst (newCacheRecord tc now request response options idToken acc env tid s) = Inl e \<longleftrightarrow>
         truthyString (access_token response) \<noteq> None \<and>
         (if truthyNumber (expires_in response) = None then e = MissingExpiry ExpiresIn
          else truthyNumber (extendedExpiresOn options) = None \<and>
               e = MissingExpiry ExtendedExpiresOn)"
  using assms
  by (auto simp: newCacheRecord_def bindE_def returnE_def throwE_def modifyE_def Let_def
        loadIdToken_browser loadRefreshToken_browser loadAccessToken_def
      split: option.splits)

lemma newCacheRecord_browser_failure_store:
  assumes "isBrowserEnvironment tc"
    and "fst (newCacheRecord tc now request response options idToken acc env tid s) = Inl e"
  shows "snd (newCacheRecord tc now request response options idToken acc env tid s) =
           setIdTokenCredential (storage tc)
             (createIdTokenEntity (accountHomeAccountId acc) env idToken (clientId tc) tid) s"
  using assms
  by (auto simp: newCacheRecord_def bindE_def returnE_def throwE_def modifyE_def Let_def
        loadIdToken_browser loadRefreshToken_browser loadAccessToken_def
      split: option.splits)

lemma resolvedAccount_SomeD:
  assumes "resolvedAccount lib request response options = Some x"
  shows "truthyString (id_token response) \<noteq> None"
    and "account request = None \<Longrightarrow> truthyString (authority request) \<noteq> None"
    and "account request = None \<Longrightarrow> chosenClientInfo options response \<noteq> None"
  using assms
  by (auto simp: resolvedAccount_def split: option.splits)

lemma loadExternalTokens_run:
  assumes "resolvedAccount lib request response options = Some (acc, env, tid)"
    and "truthyString (id_token response) = Some idToken"
  shows "loadExternalTokens lib tc now request response options s =
       (if isBrowserEnvironment tc
        then newCacheRecord tc now request response options idToken acc env tid
               (setAccount (storage tc) acc s)
        else (Inl UnsupportedEnvironment, s))"
  using loadExternalTokens_resolved [OF assms(1), of tc now s] assms(2)
  by auto

lemma loadExternalTokens_success:
  assumes "fst (loadExternalTokens lib tc now request response options s) = Inr r"
  shows "\<exists>acc env tid idToken.
           resolvedAccount lib request response options = Some (acc, env, tid) \<and>
           truthyString (id_token response) = Some idToken \<and>
           isBrowserEnvironment tc \<and>
           loadExternalTokens lib tc now request response options s =
             newCacheRecord tc now request response options idToken acc env tid
               (setAccount (storage tc) acc s)"
proof (cases "resolvedAccount lib request response options")
  case None
  with assms show ?thesis
    by (simp add: loadExternalTokens_unresolved split: if_splits)
next
  case (Some x)
  obtain acc env tid where x: "x = (acc, env, tid)"
    by (cases x) auto
  from Some x obtain idToken where
    idt: "truthyString (id_token response) = Some idToken" and
    run: "loadExternalTokens lib tc now request response options s =
       (if isBrowserEnvironment tc
        then newCacheRecord tc now request response options idToken acc env tid
               (setAccount (storage tc) acc s)
        else (Inl UnsupportedEnvironment, s))"
    using loadExternalTokens_resolved [of lib request response options acc env tid tc now s]
    by auto
  from assms run have "isBrowserEnvironment tc"
    by (auto split: if_splits)
  with Some x idt run show ?thesis
    by auto
qed

lemma newCacheRecord_account:
  "fst (newCacheRecord tc now request response options idToken acc env tid s) = Inr r \<Longrightarrow>
   cr_account r = acc"
  by (auto simp: newCacheRecord_def bindE_def returnE_def split: prod.splits sum.splits)

lemma newCacheRecord_browser_success:
  assumes "isBrowserEnvironment tc"
    and "truthyString (access_token response) = None \<or>
         truthyNumber (expires_in response) \<noteq> None \<and>
         truthyNumber (extendedExpiresOn options) \<noteq> None"
  shows "\<exists>r. fst (newCacheRecord tc now request response options idToken acc env tid s) = Inr r"
proof (cases "fst (newCacheRecord tc now request response options idToken acc env tid s)")
  case (Inl e)
  with assms show ?thesis
    by (auto simp: newCacheRecord_browser_failure split: if_splits)
next
  case (Inr r)
  then show ?thesis by blast
qed

lemma newCacheRecord_browser_accessToken:
  assumes "isBrowserEnvironment tc"
    and "truthyString (access_token response) = Some tok"
    and "truthyNumber (expires_in response) = Some ein"
    and "truthyNumber (extendedExpiresOn options) = Some extOn"
  shows "\<exists>r. fst (newCacheRecord tc now request response options idToken acc env tid s) = Inr r \<and>
           cr_accessToken r =
             Some (createAccessTokenEntity (accountHomeAccountId acc) env tok (clientId tc) tid
                     (printScopes (scopes request))
                     (case truthyNumber (expiresOn options) of Some e \<Rightarrow> e | None \<Rightarrow> ein + now)
                     extOn)"
  using assms
  by (simp add: newCacheRecord_def bindE_def returnE_def loadIdToken_browser
        loadAccessToken_browser loadRefreshToken_browser split: option.splits)

lemma newCacheRecord_browser_noAccessToken:
  assumes "isBrowserEnvironment tc"
    and "truthyString (access_token response) = None"
  shows "\<exists>r. fst (newCacheRecord tc now request response options idToken acc env tid s) = Inr r \<and>
           cr_accessToken r = None"
  using assms
  by (simp add: newCacheRecord_def bindE_def returnE_def loadIdToken_browser
        loadAccessToken_absent loadRefreshToken_browser split: option.splits)

lemma newCacheRecord_browser_noRefreshToken:
  assumes "isBrowserEnvironment tc"
    and "truthyString (refresh_token response) = None"
    and "fst (newCacheRecord tc now request response options idToken acc env tid s) = Inr r"
  shows "cr_refreshToken r = None"
  using assms
  by (auto simp: newCacheRecord_def bindE_def returnE_def loadIdToken_browser
        loadRefreshToken_browser split: prod.splits sum.splits)

lemma resolvedAccount_response_tokens:
  "resolvedAccount lib request (response\<lparr>access_token := x\<rparr>) options =
     resolvedAccount lib request response options"
  "resolvedAccount lib request (response\<lparr>refresh_token := x\<rparr>) options =
     resolvedAccount lib request response options"
  "resolvedAccount lib request (response\<lparr>expires_in := n\<rparr>) options =
     resolvedAccount lib request response options"
  by (simp_all add: resolvedAccount_def chosenClientInfo_def cong: option.case_cong)

lemma newCacheRecord_drop_accessToken:
  assumes "isBrowserEnvironment tc"
    and "fst (newCacheRecord tc now request response options idToken acc env tid s) = Inr r"
  shows "fst (newCacheRecord tc now request (response\<lparr>access_token := None\<rparr>) options idToken
                acc env tid s) = Inr (r\<lparr>cr_accessToken := None\<rparr>)"
  using assms
  by (auto simp: newCacheRecord_def bindE_def returnE_def throwE_def modifyE_def Let_def
        loadIdToken_browser loadRefreshToken_browser loadAccessToken_def
      split: option.splits)

lemma newCacheRecord_drop_refreshToken:
  assumes "isBrowserEnvironment tc"
    and "fst (newCacheRecord tc now request response options idToken acc env tid s) = Inr r"
  shows "fst (newCacheRecord tc now request (response\<lparr>refresh_token := None\<rparr>) options idToken
                acc env tid s) = Inr (r\<lparr>cr_refreshToken := None\<rparr>)"
  using assms
  by (auto simp: newCacheRecord_def bindE_def returnE_def throwE_def modifyE_def Let_def
        loadIdToken_browser loadRefreshToken_browser loadAccessToken_def
      split: option.splits)

lemma printScopes_canonical:
  assumes "set (map toLowerCase xs) = set (map toLowerCase ys)"
  shows "printScopes xs = printScopes ys"
proof -
  have "sort (remdups (map toLowerCase xs)) = sorted_list_of_set (set (map toLowerCase xs))"
    by (simp only: sorted_list_of_set_sort_remdups)
  also have "\<dots> = sorted_list_of_set (set (map toLowerCase ys))"
    by (simp only: assms)
  also have "\<dots> = sort (remdups (map toLowerCase ys))"
    by (simp only: sorted_list_of_set_sort_remdups)
  finally show ?thesis
    by (simp only: printScopes_def)
qed

lemma newCacheRecord_target:
  assumes "fst (newCacheRecord tc now request response options idToken acc env tid s) = Inr r"
    and "cr_accessToken r = Some a"
  shows "at_target a = printScopes (scopes request)"
  using assms
  by (auto simp: newCacheRecord_def loadAccessToken_def bindE_def returnE_def throwE_def
        modifyE_def Let_def createAccessTokenEntity_def
      split: prod.splits sum.splits option.splits if_splits)

lemma loadExternalTokens_scopes:
  assumes "printScopes xs = printScopes ys"
  shows "loadExternalTokens lib tc now (request\<lparr>scopes := xs\<rparr>) response options s =
         loadExternalTokens lib tc now (request\<lparr>scopes := ys\<rparr>) response options s"
  using assms
  by (simp add: loadExternalTokens_def newCacheRecord_def loadAccessToken_def
        loadRefreshToken_def cong: option.case_cong)

lemma resolvedAccount_scopes:
  "resolvedAccount lib (request\<lparr>scopes := xs\<rparr>) response options =
     resolvedAccount lib request response options"
  by (simp add: resolvedAccount_def cong: option.case_cong)

lemma newCacheRecord_browser_valid:
  assumes "isBrowserEnvironment tc"
    and "truthyString (access_token response) = Some tok"
    and "truthyNumber (expires_in response) = Some ein"
    and "truthyNumber (extendedExpiresOn options) = Some extOn"
  shows "\<exists>r a. newCacheRecord tc now request response options idToken acc env tid s =
           (Inr r,
            case truthyString (refresh_token response) of
              None \<Rightarrow>
                setAccessTokenCredential (storage tc) a
                  (setIdTokenCredential (storage tc)
                     (createIdTokenEntity (accountHomeAccountId acc) env idToken (clientId tc) tid) s)
            | Some rt \<Rightarrow>
                setRefreshTokenCredential (storage tc)
                  (createRefreshTokenEntity (accountHomeAccountId acc) env rt (clientId tc))
                  (setAccessTokenCredential (storage tc) a
                     (setIdTokenCredential (storage tc)
                        (createIdTokenEntity (accountHomeAccountId acc) env idToken (clientId tc) tid)
                        s))) \<and>
           cr_accessToken r = Some a \<and>
           a = createAccessTokenEntity (accountHomeAccountId acc) env tok (clientId tc) tid
                 (printScopes (scopes request))
                 (case truthyNumber (expiresOn options) of Some e \<Rightarrow> e | None \<Rightarrow> ein + now)
                 extOn"
  using assms
  by (simp add: newCacheRecord_def bindE_def returnE_def loadIdToken_browser
        loadAccessToken_browser loadRefreshToken_browser split: option.splits)

section \<open>Order of the failures\<close>

text \<open>
  C1, as amended: the failure raised by \<^verbatim>\<open>loadExternalTokens\<close> is the first violated
  precondition in the order MissingIdToken, MissingAccountOrAuthority, MissingClientInfo,
  UnresolvedIdentity, UnsupportedEnvironment, MissingExpiry. The environment is checked
  by the account step, before the access-token step validates the expiry fields.
\<close>

theorem first_violation_order:
  "fst (loadExternalTokens lib tc now request response options s) = Inl e \<longleftrightarrow>
   firstViolation lib tc request response options = Some e"
proof (cases "resolvedAccount lib request response options")
  case None
  then show ?thesis
    by (auto simp: loadExternalTokens_unresolved firstViolation_def)
next
  case (Some x)
  obtain acc env tid where x: "x = (acc, env, tid)"
    by (cases x) auto
  from Some x obtain idToken where
    run: "loadExternalTokens lib tc now request response options s =
       (if isBrowserEnvironment tc
        then newCacheRecord tc now request response options idToken acc env tid
               (setAccount (storage tc) acc s)
        else (Inl UnsupportedEnvironment, s))"
    using loadExternalTokens_resolved [of lib request response options acc env tid tc now s]
    by auto
  note pre = resolvedAccount_SomeD [OF Some]
  show ?thesis
  proof (cases "isBrowserEnvironment tc")
    case False
    with run Some pre show ?thesis
      by (auto simp: firstViolation_def)
  next
    case True
    with run Some pre show ?thesis
      by (auto simp: firstViolation_def newCacheRecord_browser_failure)
  qed
qed

text \<open>
  An input with an access token that lacks \<^verbatim>\<open>expires_in\<close>, outside a browser: the first
  violation is the environment.
\<close>

theorem first_violation_order_witness:
  "firstViolation exampleLib serverCache accountRequest responseNoExpiry noOptions =
     Some UnsupportedEnvironment \<and>
   fst (loadExternalTokens exampleLib serverCache 0 accountRequest responseNoExpiry noOptions []) =
     Inl UnsupportedEnvironment"
proof -
  have "firstViolation exampleLib serverCache accountRequest responseNoExpiry noOptions =
     Some UnsupportedEnvironment"
    by (simp add: firstViolation_def resolvedAccount_def chosenClientInfo_def example_defs)
  then show ?thesis
    using first_violation_order [of exampleLib serverCache 0 accountRequest responseNoExpiry
        noOptions "[]" UnsupportedEnvironment]
    by simp
qed

text \<open>
  C1 as stated fails: an access token without expiry fields, outside a browser, gives
  UnsupportedEnvironment and not MissingExpiry.
\<close>

theorem expiry_before_environment_counterexample:
  "truthyString (access_token responseNoExpiry) \<noteq> None \<and>
   truthyNumber (expires_in responseNoExpiry) = None \<and>
   \<not> isBrowserEnvironment serverCache \<and>
   fst (loadExternalTokens exampleLib serverCache 0 accountRequest responseNoExpiry noOptions [])
     = Inl UnsupportedEnvironment \<and>
   fst (loadExternalTokens exampleLib serverCache 0 accountRequest responseNoExpiry noOptions [])
     \<noteq> Inl (MissingExpiry ExpiresIn)"
  by (simp add: load_defs prog_defs example_defs)

section \<open>Writes that precede a failure\<close>

text \<open>
  C2: when \<^verbatim>\<open>loadExternalTokens\<close> fails at the validation of the access token, the store
  is the initial one with the account entity and then the ID-token entity written; the
  failure removes neither.
\<close>

theorem ingestion_not_atomic:
  assumes "fst (loadExternalTokens lib tc now request response options s) = Inl (MissingExpiry f)"
  shows "\<exists>acc env tid idToken.
           resolvedAccount lib request response options = Some (acc, env, tid) \<and>
           truthyString (id_token response) = Some idToken \<and>
           snd (loadExternalTokens lib tc now request response options s) =
             setIdTokenCredential (storage tc)
               (createIdTokenEntity (accountHomeAccountId acc) env idToken (clientId tc) tid)
               (setAccount (storage tc) acc s)"
proof (cases "resolvedAccount lib request response options")
  case None
  with assms show ?thesis
    by (simp add: loadExternalTokens_unresolved split: if_splits)
next
  case (Some x)
  obtain acc env tid where x: "x = (acc, env, tid)"
    by (cases x) auto
  from Some x obtain idToken where
    idt: "truthyString (id_token response) = Some idToken" and
    run: "loadExternalTokens lib tc now request response options s =
       (if isBrowserEnvironment tc
        then newCacheRecord tc now request response options idToken acc env tid
               (setAccount (storage tc) acc s)
        else (Inl UnsupportedEnvironment, s))"
    using loadExternalTokens_resolved [of lib request response options acc env tid tc now s]
    by auto
  from assms run have browser: "isBrowserEnvironment tc"
    by (auto split: if_splits)
  with assms run have
    "snd (loadExternalTokens lib tc now request response options s) =
       setIdTokenCredential (storage tc)
         (createIdTokenEntity (accountHomeAccountId acc) env idToken (clientId tc) tid)
         (setAccount (storage tc) acc s)"
    by (simp add: newCacheRecord_browser_failure_store)
  with Some x idt show ?thesis
    by blast
qed

theorem ingestion_not_atomic_witness:
  "fst (loadExternalTokens exampleLib browserCache 0 accountRequest responseNoExpiry noOptions [])
     = Inl (MissingExpiry ExpiresIn) \<and>
   snd (loadExternalTokens exampleLib browserCache 0 accountRequest responseNoExpiry noOptions [])
     = [SetIdTokenCredential
          (createIdTokenEntity ''uid.utid'' ''login.example.com'' ''jwt'' ''app'' ''utid''),
        SetAccount (createGenericAccount ''uid.utid'' (AuthToken ''jwt'') ''login.example.com'')]"
proof -
  have fails:
    "fst (loadExternalTokens exampleLib browserCache 0 accountRequest responseNoExpiry noOptions [])
       = Inl (MissingExpiry ExpiresIn)"
    by (simp add: load_defs prog_defs example_defs)
  have res: "resolvedAccount exampleLib accountRequest responseNoExpiry noOptions =
      Some (createGenericAccount ''uid.utid'' (AuthToken ''jwt'') ''login.example.com'',
            ''login.example.com'', ''utid'')"
    by (simp add: resolvedAccount_def example_defs)
  from ingestion_not_atomic [OF fails] res fails show ?thesis
    by (simp add: example_defs)
qed

section \<open>Which client-info an ingestion uses\<close>

text \<open>
  C3: for a request with an authority and no account (and a response with an ID token),
  the account of a successful ingestion is built from \<^verbatim>\<open>options.clientInfo\<close> when that is
  set, whatever \<^verbatim>\<open>response.client_info\<close> is, and from \<^verbatim>\<open>response.client_info\<close> when only that
  is set; with a client-info from either place the ingestion succeeds when the rest of the
  input is valid (browser, a non-empty derived identity, no access token or one with its
  expiry fields); with neither it fails with MissingClientInfo and writes nothing.
\<close>

theorem client_info_precedence:
  assumes "truthyString (id_token response) = Some idToken"
    and "account request = None"
    and "truthyString (authority request) = Some a"
  shows "(\<forall>c. truthyString (clientInfo options) = Some c \<or>
              truthyString (clientInfo options) = None \<and>
              truthyString (client_info response) = Some c \<longrightarrow>
            (\<forall>r. fst (loadExternalTokens lib tc now request response options s) = Inr r \<longrightarrow>
               cr_account r =
                 createAccount c
                   (generateHomeAccountId lib c
                      (authorityType (newAuthority lib a (azureCloudOptions request)))
                      (AuthToken idToken))
                   (AuthToken idToken)
                   (hostnameAndPort (newAuthority lib a (azureCloudOptions request)))) \<and>
            (isBrowserEnvironment tc \<and>
             generateHomeAccountId lib c
               (authorityType (newAuthority lib a (azureCloudOptions request)))
               (AuthToken idToken) \<noteq> [] \<and>
             (truthyString (access_token response) = None \<or>
              truthyNumber (expires_in response) \<noteq> None \<and>
              truthyNumber (extendedExpiresOn options) \<noteq> None) \<longrightarrow>
             (\<exists>r. fst (loadExternalTokens lib tc now request response options s) = Inr r))) \<and>
         (truthyString (clientInfo options) = None \<and>
          truthyString (client_info response) = None \<longrightarrow>
            loadExternalTokens lib tc now request response options s = (Inl MissingClientInfo, s))"
proof -
  let ?auth = "newAuthority lib a (azureCloudOptions request)"
  have chosen: "chosenClientInfo options response = Some c"
    if "truthyString (clientInfo options) = Some c \<or>
        truthyString (clientInfo options) = None \<and> truthyString (client_info response) = Some c"
    for c
    using that by (auto simp: chosenClientInfo_def)
  have res: "resolvedAccount lib request response options =
      (if generateHomeAccountId lib c (authorityType ?auth) (AuthToken idToken) = [] then None
       else Some (createAccount c
                    (generateHomeAccountId lib c (authorityType ?auth) (AuthToken idToken))
                    (AuthToken idToken) (hostnameAndPort ?auth),
                  hostnameAndPort ?auth, tenant ?auth))"
    if "chosenClientInfo options response = Some c" for c
    using assms that by (simp add: resolvedAccount_def Let_def)
  have acc: "cr_account r =
      createAccount c (generateHomeAccountId lib c (authorityType ?auth) (AuthToken idToken))
        (AuthToken idToken) (hostnameAndPort ?auth)"
    if c: "chosenClientInfo options response = Some c"
      and r: "fst (loadExternalTokens lib tc now request response options s) = Inr r" for c r
  proof -
    from loadExternalTokens_success [OF r] obtain acc env tid idToken' where
      "resolvedAccount lib request response options = Some (acc, env, tid)"
      "loadExternalTokens lib tc now request response options s =
         newCacheRecord tc now request response options idToken' acc env tid
           (setAccount (storage tc) acc s)"
      by blast
    with r res [OF c] newCacheRecord_account [of tc now request response options idToken' acc env
        tid "setAccount (storage tc) acc s" r]
    show ?thesis
      by (auto split: if_splits)
  qed
  have ok: "\<exists>r. fst (loadExternalTokens lib tc now request response options s) = Inr r"
    if c: "chosenClientInfo options response = Some c"
      and "isBrowserEnvironment tc"
      and "generateHomeAccountId lib c (authorityType ?auth) (AuthToken idToken) \<noteq> []"
      and "truthyString (access_token response) = None \<or>
           truthyNumber (expires_in response) \<noteq> None \<and>
           truthyNumber (extendedExpiresOn options) \<noteq> None" for c
    using loadExternalTokens_run [OF _ assms(1), of lib request options _ _ _ tc now s]
      res [OF c] that(2,3) newCacheRecord_browser_success [OF that(2,4)]
    by simp
  have none: "loadExternalTokens lib tc now request response options s = (Inl MissingClientInfo, s)"
    if "truthyString (clientInfo options) = None" "truthyString (client_info response) = None"
    using assms that
    by (simp add: loadExternalTokens_unresolved resolvedAccount_def chosenClientInfo_def)
  from chosen acc ok none show ?thesis
    by blast
qed

text \<open>
  Both client-infos set: the account is built from the one of the options. Only the
  response's set: the ingestion succeeds with it. Neither: MissingClientInfo.
\<close>

theorem client_info_precedence_witness:
  "(\<exists>r. fst (loadExternalTokens exampleLib browserCache 1000 authorityRequest responseIdOnly
               optionsClientInfo []) = Inr r \<and>
        cr_account r = createAccount ''opt'' ''opt'' (AuthToken ''jwt'') ''login.example.com'') \<and>
   (\<exists>r. fst (loadExternalTokens exampleLib browserCache 1000 authorityRequest responseIdOnly
               noOptions []) = Inr r \<and>
        cr_account r = createAccount ''b64'' ''b64'' (AuthToken ''jwt'') ''login.example.com'') \<and>
   loadExternalTokens exampleLib browserCache 1000 authorityRequest
     (responseIdOnly\<lparr>client_info := None\<rparr>) noOptions [] = (Inl MissingClientInfo, [])"
proof -
  have idt: "truthyString (id_token response) = Some ''jwt''"
    if "id_token response = Some ''jwt''" for response :: ExternalTokenResponse
    using that by simp
  have i1: "id_token responseIdOnly = Some ''jwt''"
    and i2: "id_token (responseIdOnly\<lparr>client_info := None\<rparr>) = Some ''jwt''"
    by (simp_all add: input_defs)
  have req: "account authorityRequest = None"
    "truthyString (authority authorityRequest) = Some ''https://login.example.com/common''"
    by (simp_all add: authorityRequest_def)
  note p1 = client_info_precedence [where lib = exampleLib and tc = browserCache and now = 1000
      and s = "[]" and options = optionsClientInfo, OF idt [OF i1] req]
  note p2 = client_info_precedence [where lib = exampleLib and tc = browserCache and now = 1000
      and s = "[]" and options = noOptions, OF idt [OF i1] req]
  note p3 = client_info_precedence [where lib = exampleLib and tc = browserCache and now = 1000
      and s = "[]" and options = noOptions, OF idt [OF i2] req]
  have a: "\<exists>r. fst (loadExternalTokens exampleLib browserCache 1000 authorityRequest responseIdOnly
               optionsClientInfo []) = Inr r \<and>
        cr_account r = createAccount ''opt'' ''opt'' (AuthToken ''jwt'') ''login.example.com''"
    using p1 [THEN conjunct1, rule_format, of "''opt''"]
    by (auto simp: example_defs input_defs)
  have b: "\<exists>r. fst (loadExternalTokens exampleLib browserCache 1000 authorityRequest responseIdOnly
               noOptions []) = Inr r \<and>
        cr_account r = createAccount ''b64'' ''b64'' (AuthToken ''jwt'') ''login.example.com''"
    using p2 [THEN conjunct1, rule_format, of "''b64''"]
    by (auto simp: example_defs input_defs)
  have c: "loadExternalTokens exampleLib browserCache 1000 authorityRequest
     (responseIdOnly\<lparr>client_info := None\<rparr>) noOptions [] = (Inl MissingClientInfo, [])"
    using p3 [THEN conjunct2]
    by (simp add: example_defs input_defs)
  from a b c show ?thesis by blast
qed

section \<open>Full and generic accounts\<close>

text \<open>
  C5, as amended: the account of a successful ingestion is "full" exactly when the request
  carries no account, and is then built from the chosen client-info; when the request
  carries an account it is the "generic" account of that identity and environment,
  whether or not client-info is available on the call. In both cases it is the entity that
  \<^verbatim>\<open>setAccount\<close> wrote before the token steps ran.
\<close>

theorem account_kind:
  assumes "fst (loadExternalTokens lib tc now request response options s) = Inr r"
  shows "(isFullAccount (cr_account r) \<longleftrightarrow> account request = None) \<and>
         (\<forall>acct. account request = Some acct \<longrightarrow>
            (\<exists>idToken. truthyString (id_token response) = Some idToken \<and>
               cr_account r =
                 createGenericAccount (homeAccountId acct) (AuthToken idToken)
                   (environment acct))) \<and>
         (account request = None \<longrightarrow>
            (\<exists>c h tok env. chosenClientInfo options response = Some c \<and>
               cr_account r = createAccount c h tok env)) \<and>
         (\<exists>idToken env tid.
            snd (loadExternalTokens lib tc now request response options s) =
              snd (newCacheRecord tc now request response options idToken (cr_account r) env tid
                     (setAccount (storage tc) (cr_account r) s)))"
proof -
  from loadExternalTokens_success [OF assms] obtain acc env tid idToken where
    res: "resolvedAccount lib request response options = Some (acc, env, tid)" and
    idt: "truthyString (id_token response) = Some idToken" and
    run: "loadExternalTokens lib tc now request response options s =
       newCacheRecord tc now request response options idToken acc env tid
         (setAccount (storage tc) acc s)"
    by blast
  from assms run have acc: "cr_account r = acc"
    by (simp add: newCacheRecord_account)
  have kind: "isFullAccount acc \<longleftrightarrow> account request = None"
    using res by (auto simp: resolvedAccount_def Let_def split: option.splits if_splits)
  have generic: "\<exists>idToken. truthyString (id_token response) = Some idToken \<and>
      acc = createGenericAccount (homeAccountId acct) (AuthToken idToken) (environment acct)"
    if "account request = Some acct" for acct
    using res that by (auto simp: resolvedAccount_def split: option.splits if_splits)
  have full: "\<exists>c h tok env. chosenClientInfo options response = Some c \<and>
      acc = createAccount c h tok env"
    if "account request = None"
    using res that by (auto simp: resolvedAccount_def Let_def split: option.splits if_splits)
  have store: "\<exists>idToken env tid.
      snd (loadExternalTokens lib tc now request response options s) =
        snd (newCacheRecord tc now request response options idToken acc env tid
               (setAccount (storage tc) acc s))"
    using run by auto
  from kind generic full store show ?thesis
    unfolding acc by blast
qed

text \<open>
  An ingestion from an authority gives a full account.
\<close>

theorem account_kind_witness:
  "fst (loadExternalTokens exampleLib browserCache 1000 authorityRequest responseIdOnly noOptions [])
     = Inr \<lparr>cr_account = createAccount ''b64'' ''b64'' (AuthToken ''jwt'') ''login.example.com'',
            cr_idToken = createIdTokenEntity ''b64'' ''login.example.com'' ''jwt'' ''app'' ''common'',
            cr_accessToken = None, cr_refreshToken = None\<rparr> \<and>
   isFullAccount (createAccount ''b64'' ''b64'' (AuthToken ''jwt'') ''login.example.com'')"
proof -
  have run: "fst (loadExternalTokens exampleLib browserCache 1000 authorityRequest responseIdOnly
      noOptions [])
     = Inr \<lparr>cr_account = createAccount ''b64'' ''b64'' (AuthToken ''jwt'') ''login.example.com'',
            cr_idToken = createIdTokenEntity ''b64'' ''login.example.com'' ''jwt'' ''app'' ''common'',
            cr_accessToken = None, cr_refreshToken = None\<rparr>"
    by (simp add: load_defs prog_defs example_defs input_defs)
  from account_kind [OF run] run show ?thesis
    by (simp add: authorityRequest_def)
qed

text \<open>
  C5 as stated fails: with an account on the request, the account entity is generic
  although both \<^verbatim>\<open>options.clientInfo\<close> and \<^verbatim>\<open>response.client_info\<close> are set.
\<close>

theorem full_account_counterexample:
  "truthyString (clientInfo optionsClientInfo) = Some ''opt'' \<and>
   truthyString (client_info responseIdOnly) = Some ''b64'' \<and>
   fst (loadExternalTokens exampleLib browserCache 1000 accountRequest responseIdOnly
          optionsClientInfo [])
     = Inr \<lparr>cr_account =
              createGenericAccount ''uid.utid'' (AuthToken ''jwt'') ''login.example.com'',
            cr_idToken =
              createIdTokenEntity ''uid.utid'' ''login.example.com'' ''jwt'' ''app'' ''utid'',
            cr_accessToken = None, cr_refreshToken = None\<rparr> \<and>
   \<not> isFullAccount
       (createGenericAccount ''uid.utid'' (AuthToken ''jwt'') ''login.example.com'')"
  by (simp add: load_defs prog_defs example_defs input_defs)

section \<open>Expiry of the access token\<close>

text \<open>
  C6: on an input that reaches the access-token step (the account resolves, in a browser)
  with an access-token string: without \<^verbatim>\<open>expires_in\<close> the ingestion fails with
  MissingExpiry; with \<^verbatim>\<open>expires_in\<close> and without \<^verbatim>\<open>options.extendedExpiresOn\<close> it fails with
  MissingExpiry too; with both it succeeds, and the expiry of the access-token entity is
  \<^verbatim>\<open>options.expiresOn\<close> if given, else \<^verbatim>\<open>now + expires_in\<close>, the extended expiry being the one
  of the options. A field counts as absent when the test of the source fails on it.
\<close>

theorem access_token_expiry:
  assumes "resolvedAccount lib request response options = Some (acc, env, tid)"
    and "isBrowserEnvironment tc"
    and "truthyString (access_token response) = Some tok"
  shows "(truthyNumber (expires_in response) = None \<longrightarrow>
            fst (loadExternalTokens lib tc now request response options s) =
              Inl (MissingExpiry ExpiresIn)) \<and>
         (truthyNumber (expires_in response) \<noteq> None \<and>
          truthyNumber (extendedExpiresOn options) = None \<longrightarrow>
            fst (loadExternalTokens lib tc now request response options s) =
              Inl (MissingExpiry ExtendedExpiresOn)) \<and>
         (\<forall>ein extOn.
            truthyNumber (expires_in response) = Some ein \<and>
            truthyNumber (extendedExpiresOn options) = Some extOn \<longrightarrow>
            (\<exists>r a. fst (loadExternalTokens lib tc now request response options s) = Inr r \<and>
                   cr_accessToken r = Some a \<and>
                   at_expiresOn a =
                     (case truthyNumber (expiresOn options) of
                        Some e \<Rightarrow> e
                      | None \<Rightarrow> now + ein) \<and>
                   at_extendedExpiresOn a = extOn))"
proof -
  from resolvedAccount_SomeD(1) [OF assms(1)] obtain idToken where
    idt: "truthyString (id_token response) = Some idToken"
    by auto
  note run = loadExternalTokens_run [OF assms(1) idt, of tc now s]
  have a: "truthyNumber (expires_in response) = None \<longrightarrow>
            fst (loadExternalTokens lib tc now request response options s) =
              Inl (MissingExpiry ExpiresIn)"
    using assms(2,3) by (simp add: run newCacheRecord_browser_failure)
  have b: "truthyNumber (expires_in response) \<noteq> None \<and>
          truthyNumber (extendedExpiresOn options) = None \<longrightarrow>
            fst (loadExternalTokens lib tc now request response options s) =
              Inl (MissingExpiry ExtendedExpiresOn)"
    using assms(2,3) by (simp add: run newCacheRecord_browser_failure)
  have c: "\<exists>r a. fst (loadExternalTokens lib tc now request response options s) = Inr r \<and>
                   cr_accessToken r = Some a \<and>
                   at_expiresOn a =
                     (case truthyNumber (expiresOn options) of
                        Some e \<Rightarrow> e
                      | None \<Rightarrow> now + ein) \<and>
                   at_extendedExpiresOn a = extOn"
    if "truthyNumber (expires_in response) = Some ein"
      and "truthyNumber (extendedExpiresOn options) = Some extOn" for ein extOn
    using newCacheRecord_browser_accessToken [OF assms(2,3) that, of now request idToken acc env
        tid "setAccount (storage tc) acc s"] assms(2)
    by (auto simp: run createAccessTokenEntity_def add.commute split: option.splits)
  from a b c show ?thesis by blast
qed

text \<open>
  At 1000 seconds, a token valid for 3600 seconds expires at 4600.
\<close>

theorem access_token_expiry_witness:
  "fst (loadExternalTokens exampleLib browserCache 1000 accountRequest responseNoExpiry
          optionsExtended []) = Inl (MissingExpiry ExpiresIn) \<and>
   fst (loadExternalTokens exampleLib browserCache 1000 accountRequest responseFull
          noOptions []) = Inl (MissingExpiry ExtendedExpiresOn) \<and>
   (\<exists>r a. fst (loadExternalTokens exampleLib browserCache 1000 accountRequest responseFull
                 optionsExtended []) = Inr r \<and>
          cr_accessToken r = Some a \<and> at_expiresOn a = 4600 \<and> at_extendedExpiresOn a = 8200)"
proof -
  have res: "resolvedAccount exampleLib accountRequest response options =
      Some (createGenericAccount ''uid.utid'' (AuthToken ''jwt'') ''login.example.com'',
            ''login.example.com'', ''utid'')"
    if "id_token response = Some ''jwt''" for response options
    using that by (simp add: resolvedAccount_def example_defs)
  have r1: "id_token responseNoExpiry = Some ''jwt''" and r2: "id_token responseFull = Some ''jwt''"
    by (simp_all add: example_defs input_defs)
  have browser: "isBrowserEnvironment browserCache"
    by (simp add: browserCache_def)
  have "fst (loadExternalTokens exampleLib browserCache 1000 accountRequest responseNoExpiry
          optionsExtended []) = Inl (MissingExpiry ExpiresIn)"
    using access_token_expiry [where tok = "''AT1''" and now = 1000 and s = "[]",
        OF res [OF r1, of optionsExtended] browser]
    by (simp add: example_defs)
  moreover have "fst (loadExternalTokens exampleLib browserCache 1000 accountRequest responseFull
          noOptions []) = Inl (MissingExpiry ExtendedExpiresOn)"
    using access_token_expiry [where tok = "''AT1''" and now = 1000 and s = "[]",
        OF res [OF r2, of noOptions] browser]
    by (simp add: example_defs input_defs)
  moreover have "\<exists>r a. fst (loadExternalTokens exampleLib browserCache 1000 accountRequest
                 responseFull optionsExtended []) = Inr r \<and>
          cr_accessToken r = Some a \<and> at_expiresOn a = 4600 \<and> at_extendedExpiresOn a = 8200"
    using access_token_expiry [where tok = "''AT1''" and now = 1000 and s = "[]",
        OF res [OF r2, of optionsExtended] browser]
    by (simp add: example_defs input_defs)
  ultimately show ?thesis by blast
qed

text \<open>
  C10: the number 0 is treated as an absent field: an ingestion with \<^verbatim>\<open>expires_in\<close>,
  \<^verbatim>\<open>extendedExpiresOn\<close> or \<^verbatim>\<open>expiresOn\<close> equal to 0 runs as the one without the field. So,
  on an input that reaches the access-token step with an access-token string,
  \<^verbatim>\<open>expires_in = 0\<close> and \<^verbatim>\<open>extendedExpiresOn = 0\<close> fail with MissingExpiry, and with
  \<^verbatim>\<open>expiresOn = 0\<close> the expiry is \<^verbatim>\<open>now + expires_in\<close>.
\<close>

theorem zero_is_absent:
  assumes "resolvedAccount lib request response options = Some (acc, env, tid)"
    and "isBrowserEnvironment tc"
    and "truthyString (access_token response) = Some tok"
  shows "loadExternalTokens lib tc now request (response\<lparr>expires_in := Some 0\<rparr>) options s =
           loadExternalTokens lib tc now request (response\<lparr>expires_in := None\<rparr>) options s \<and>
         loadExternalTokens lib tc now request response (options\<lparr>extendedExpiresOn := Some 0\<rparr>) s =
           loadExternalTokens lib tc now request response (options\<lparr>extendedExpiresOn := None\<rparr>) s \<and>
         loadExternalTokens lib tc now request response (options\<lparr>expiresOn := Some 0\<rparr>) s =
           loadExternalTokens lib tc now request response (options\<lparr>expiresOn := None\<rparr>) s \<and>
         (expires_in response = Some 0 \<longrightarrow>
            fst (loadExternalTokens lib tc now request response options s) =
              Inl (MissingExpiry ExpiresIn)) \<and>
         (truthyNumber (expires_in response) \<noteq> None \<and> extendedExpiresOn options = Some 0 \<longrightarrow>
            fst (loadExternalTokens lib tc now request response options s) =
              Inl (MissingExpiry ExtendedExpiresOn)) \<and>
         (\<forall>ein extOn.
            truthyNumber (expires_in response) = Some ein \<and>
            truthyNumber (extendedExpiresOn options) = Some extOn \<and>
            expiresOn options = Some 0 \<longrightarrow>
            (\<exists>r a. fst (loadExternalTokens lib tc now request response options s) = Inr r \<and>
                   cr_accessToken r = Some a \<and> at_expiresOn a = now + ein))"
proof -
  from resolvedAccount_SomeD(1) [OF assms(1)] obtain idToken where
    idt: "truthyString (id_token response) = Some idToken"
    by auto
  have run: "loadExternalTokens lib tc now request response options s =
      newCacheRecord tc now request response options idToken acc env tid
        (setAccount (storage tc) acc s)"
    using loadExternalTokens_run [OF assms(1) idt, of tc now s] assms(2) by simp
  have e1: "loadExternalTokens lib tc now request (response\<lparr>expires_in := Some 0\<rparr>) options s =
           loadExternalTokens lib tc now request (response\<lparr>expires_in := None\<rparr>) options s"
    by (simp add: loadExternalTokens_def newCacheRecord_def loadAccessToken_def
        loadRefreshToken_def cong: option.case_cong)
  have e2: "loadExternalTokens lib tc now request response (options\<lparr>extendedExpiresOn := Some 0\<rparr>) s =
           loadExternalTokens lib tc now request response (options\<lparr>extendedExpiresOn := None\<rparr>) s"
    by (simp add: loadExternalTokens_def newCacheRecord_def loadAccessToken_def
        loadRefreshToken_def cong: option.case_cong)
  have e3: "loadExternalTokens lib tc now request response (options\<lparr>expiresOn := Some 0\<rparr>) s =
           loadExternalTokens lib tc now request response (options\<lparr>expiresOn := None\<rparr>) s"
    by (simp add: loadExternalTokens_def newCacheRecord_def loadAccessToken_def
        loadRefreshToken_def cong: option.case_cong)
  have a: "expires_in response = Some 0 \<longrightarrow>
            fst (loadExternalTokens lib tc now request response options s) =
              Inl (MissingExpiry ExpiresIn)"
    using assms(2,3) by (simp add: run newCacheRecord_browser_failure)
  have b: "truthyNumber (expires_in response) \<noteq> None \<and> extendedExpiresOn options = Some 0 \<longrightarrow>
            fst (loadExternalTokens lib tc now request response options s) =
              Inl (MissingExpiry ExtendedExpiresOn)"
    using assms(2,3) by (simp add: run newCacheRecord_browser_failure)
  have c: "\<exists>r a. fst (loadExternalTokens lib tc now request response options s) = Inr r \<and>
                   cr_accessToken r = Some a \<and> at_expiresOn a = now + ein"
    if "truthyNumber (expires_in response) = Some ein"
      and "truthyNumber (extendedExpiresOn options) = Some extOn"
      and "expiresOn options = Some 0" for ein extOn
    using newCacheRecord_browser_accessToken [OF assms(2,3) that(1,2), of now request idToken
        acc env tid "setAccount (storage tc) acc s"] that(3)
    by (auto simp: run createAccessTokenEntity_def add.commute)
  from e1 e2 e3 a b c show ?thesis by blast
qed

theorem zero_is_absent_witness:
  "fst (loadExternalTokens exampleLib browserCache 1000 accountRequest responseZeroExpiry
          optionsExtended []) = Inl (MissingExpiry ExpiresIn) \<and>
   fst (loadExternalTokens exampleLib browserCache 1000 accountRequest responseFull
          (optionsExtended\<lparr>extendedExpiresOn := Some 0\<rparr>) []) =
     Inl (MissingExpiry ExtendedExpiresOn) \<and>
   (\<exists>r a. fst (loadExternalTokens exampleLib browserCache 1000 accountRequest responseFull
                 optionsClientInfo []) = Inr r \<and>
          cr_accessToken r = Some a \<and> at_expiresOn a = 4600)"
proof -
  have res: "resolvedAccount exampleLib accountRequest response options =
      Some (createGenericAccount ''uid.utid'' (AuthToken ''jwt'') ''login.example.com'',
            ''login.example.com'', ''utid'')"
    if "id_token response = Some ''jwt''" for response options
    using that by (simp add: resolvedAccount_def example_defs)
  have r1: "id_token responseZeroExpiry = Some ''jwt''" and r2: "id_token responseFull = Some ''jwt''"
    by (simp_all add: input_defs)
  have browser: "isBrowserEnvironment browserCache"
    by (simp add: browserCache_def)
  have t1: "truthyString (access_token responseZeroExpiry) = Some ''AT1''"
    and t2: "truthyString (access_token responseFull) = Some ''AT1''"
    by (simp_all add: input_defs)
  note z1 = zero_is_absent [where now = 1000 and s = "[]",
        OF res [OF r1, of optionsExtended] browser t1]
  note z2 = zero_is_absent [where now = 1000 and s = "[]",
        OF res [OF r2, of "optionsExtended\<lparr>extendedExpiresOn := Some 0\<rparr>"] browser t2]
  note z3 = zero_is_absent [where now = 1000 and s = "[]",
        OF res [OF r2, of optionsClientInfo] browser t2]
  have v1: "expires_in responseZeroExpiry = Some 0"
    by (simp add: input_defs)
  have v2: "truthyNumber (expires_in responseFull) = Some 3600"
    "extendedExpiresOn (optionsExtended\<lparr>extendedExpiresOn := Some 0\<rparr>) = Some 0"
    "truthyNumber (extendedExpiresOn optionsClientInfo) = Some 8200"
    "expiresOn optionsClientInfo = Some 0"
    by (simp_all add: input_defs)
  have "fst (loadExternalTokens exampleLib browserCache 1000 accountRequest responseZeroExpiry
          optionsExtended []) = Inl (MissingExpiry ExpiresIn)"
    using z1 [THEN conjunct2, THEN conjunct2, THEN conjunct2, THEN conjunct1] v1 by simp
  moreover have "fst (loadExternalTokens exampleLib browserCache 1000 accountRequest responseFull
          (optionsExtended\<lparr>extendedExpiresOn := Some 0\<rparr>) []) =
     Inl (MissingExpiry ExtendedExpiresOn)"
    using z2 [THEN conjunct2, THEN conjunct2, THEN conjunct2, THEN conjunct2, THEN conjunct1] v2
    by simp
  moreover have "\<exists>r a. fst (loadExternalTokens exampleLib browserCache 1000 accountRequest
                 responseFull optionsClientInfo []) = Inr r \<and>
          cr_accessToken r = Some a \<and> at_expiresOn a = 4600"
    using z3 [THEN conjunct2, THEN conjunct2, THEN conjunct2, THEN conjunct2, THEN conjunct2] v2
    by simp
  ultimately show ?thesis by blast
qed

section \<open>Responses without access or refresh token\<close>

text \<open>
  C7: on an otherwise valid input (the account resolves, in a browser), a response
  without access-token string gives a record whose \<open>accessToken\<close> is null, and no error; a
  response without refresh-token string gives a null \<open>refreshToken\<close>, and no error. When
  an ingestion succeeds, the same ingestion with the access token (or the refresh token)
  removed from the response returns the same record with that field null.
\<close>

theorem absent_tokens_are_null:
  assumes "resolvedAccount lib request response options = Some (acc, env, tid)"
    and "isBrowserEnvironment tc"
  shows "(truthyString (access_token response) = None \<longrightarrow>
            (\<exists>r. fst (loadExternalTokens lib tc now request response options s) = Inr r \<and>
                 cr_accessToken r = None)) \<and>
         (truthyString (refresh_token response) = None \<and>
          (truthyString (access_token response) = None \<or>
           truthyNumber (expires_in response) \<noteq> None \<and>
           truthyNumber (extendedExpiresOn options) \<noteq> None) \<longrightarrow>
            (\<exists>r. fst (loadExternalTokens lib tc now request response options s) = Inr r \<and>
                 cr_refreshToken r = None)) \<and>
         (\<forall>r. fst (loadExternalTokens lib tc now request response options s) = Inr r \<longrightarrow>
            fst (loadExternalTokens lib tc now request (response\<lparr>access_token := None\<rparr>)
                   options s) = Inr (r\<lparr>cr_accessToken := None\<rparr>) \<and>
            fst (loadExternalTokens lib tc now request (response\<lparr>refresh_token := None\<rparr>)
                   options s) = Inr (r\<lparr>cr_refreshToken := None\<rparr>))"
proof -
  from resolvedAccount_SomeD(1) [OF assms(1)] obtain idToken where
    idt: "truthyString (id_token response) = Some idToken"
    by auto
  have run: "loadExternalTokens lib tc now request response options s =
      newCacheRecord tc now request response options idToken acc env tid
        (setAccount (storage tc) acc s)"
    using loadExternalTokens_run [OF assms(1) idt, of tc now s] assms(2) by simp
  have runA: "loadExternalTokens lib tc now request (response\<lparr>access_token := None\<rparr>) options s =
      newCacheRecord tc now request (response\<lparr>access_token := None\<rparr>) options idToken acc env tid
        (setAccount (storage tc) acc s)"
    using loadExternalTokens_run [of lib request "response\<lparr>access_token := None\<rparr>" options
        acc env tid idToken tc now s] assms idt
    by (simp add: resolvedAccount_response_tokens)
  have runR: "loadExternalTokens lib tc now request (response\<lparr>refresh_token := None\<rparr>) options s =
      newCacheRecord tc now request (response\<lparr>refresh_token := None\<rparr>) options idToken acc env tid
        (setAccount (storage tc) acc s)"
    using loadExternalTokens_run [of lib request "response\<lparr>refresh_token := None\<rparr>" options
        acc env tid idToken tc now s] assms idt
    by (simp add: resolvedAccount_response_tokens)
  have a: "truthyString (access_token response) = None \<longrightarrow>
            (\<exists>r. fst (loadExternalTokens lib tc now request response options s) = Inr r \<and>
                 cr_accessToken r = None)"
    using newCacheRecord_browser_noAccessToken [OF assms(2)] by (simp add: run)
  have b: "truthyString (refresh_token response) = None \<and>
          (truthyString (access_token response) = None \<or>
           truthyNumber (expires_in response) \<noteq> None \<and>
           truthyNumber (extendedExpiresOn options) \<noteq> None) \<longrightarrow>
            (\<exists>r. fst (loadExternalTokens lib tc now request response options s) = Inr r \<and>
                 cr_refreshToken r = None)"
    using newCacheRecord_browser_success [OF assms(2), of response options now request idToken
        acc env tid "setAccount (storage tc) acc s"]
      newCacheRecord_browser_noRefreshToken [OF assms(2), of response now request options idToken
        acc env tid "setAccount (storage tc) acc s"]
    by (auto simp: run)
  have c: "fst (loadExternalTokens lib tc now request (response\<lparr>access_token := None\<rparr>)
                   options s) = Inr (r\<lparr>cr_accessToken := None\<rparr>) \<and>
            fst (loadExternalTokens lib tc now request (response\<lparr>refresh_token := None\<rparr>)
                   options s) = Inr (r\<lparr>cr_refreshToken := None\<rparr>)"
    if "fst (loadExternalTokens lib tc now request response options s) = Inr r" for r
    using that newCacheRecord_drop_accessToken [OF assms(2)]
      newCacheRecord_drop_refreshToken [OF assms(2)]
    by (simp add: run runA runR)
  from a b c show ?thesis by blast
qed

theorem absent_tokens_are_null_witness:
  "(\<exists>r. fst (loadExternalTokens exampleLib browserCache 1000 authorityRequest responseIdOnly
               noOptions []) = Inr r \<and> cr_accessToken r = None \<and> cr_refreshToken r = None)"
proof -
  have res: "resolvedAccount exampleLib authorityRequest responseIdOnly noOptions =
      Some (createAccount ''b64'' ''b64'' (AuthToken ''jwt'') ''login.example.com'',
            ''login.example.com'', ''common'')"
    by (simp add: resolvedAccount_def chosenClientInfo_def example_defs input_defs Let_def)
  have browser: "isBrowserEnvironment browserCache"
    by (simp add: browserCache_def)
  from absent_tokens_are_null [where now = 1000 and s = "[]", OF res browser]
  obtain r r' where
    "fst (loadExternalTokens exampleLib browserCache 1000 authorityRequest responseIdOnly
            noOptions []) = Inr r" "cr_accessToken r = None"
    "fst (loadExternalTokens exampleLib browserCache 1000 authorityRequest responseIdOnly
            noOptions []) = Inr r'" "cr_refreshToken r' = None"
    by (auto simp: input_defs)
  then show ?thesis by auto
qed

section \<open>Canonical scopes\<close>

text \<open>
  C4: two scope lists with the same set of lower-cased scopes (they differ in order, case
  and duplicates only) give the same ingestion. On an input that reaches the access-token
  step with an access token and its expiry fields, each of the two ingestions succeeds
  with an access-token entity whose scope string is the canonical one of its list, the
  two strings are equal, the key of the entity is the lower-cased join of identity,
  environment, client id, realm and that string, the same for both, and the entity is the
  one written by \<^verbatim>\<open>setAccessTokenCredential\<close> after the account and the ID token.
\<close>

theorem scope_canonicalization:
  assumes "set (map toLowerCase xs) = set (map toLowerCase ys)"
  shows "loadExternalTokens lib tc now (request\<lparr>scopes := xs\<rparr>) response options s =
           loadExternalTokens lib tc now (request\<lparr>scopes := ys\<rparr>) response options s \<and>
         (\<forall>r a. fst (loadExternalTokens lib tc now (request\<lparr>scopes := xs\<rparr>) response options s)
                  = Inr r \<and> cr_accessToken r = Some a \<longrightarrow>
            at_target a = printScopes xs \<and>
            (\<exists>r' a'. fst (loadExternalTokens lib tc now (request\<lparr>scopes := ys\<rparr>) response
                            options s) = Inr r' \<and>
                     cr_accessToken r' = Some a' \<and>
                     at_target a' = printScopes ys \<and>
                     at_target a' = at_target a \<and>
                     generateAccessTokenKey a' = generateAccessTokenKey a)) \<and>
         (\<forall>acc env tid idToken tok ein extOn.
            resolvedAccount lib request response options = Some (acc, env, tid) \<and>
            truthyString (id_token response) = Some idToken \<and>
            isBrowserEnvironment tc \<and>
            truthyString (access_token response) = Some tok \<and>
            truthyNumber (expires_in response) = Some ein \<and>
            truthyNumber (extendedExpiresOn options) = Some extOn \<longrightarrow>
            (\<exists>r a r' a'.
               fst (loadExternalTokens lib tc now (request\<lparr>scopes := xs\<rparr>) response options s)
                 = Inr r \<and>
               cr_accessToken r = Some a \<and>
               fst (loadExternalTokens lib tc now (request\<lparr>scopes := ys\<rparr>) response options s)
                 = Inr r' \<and>
               cr_accessToken r' = Some a' \<and>
               at_target a = printScopes xs \<and>
               at_target a' = printScopes ys \<and>
               printScopes xs = printScopes ys \<and>
               generateAccessTokenKey a =
                 toLowerCase (joinStrings ''-''
                   [accountHomeAccountId acc, env, clientId tc, tid, printScopes xs]) \<and>
               generateAccessTokenKey a' = generateAccessTokenKey a \<and>
               snd (loadExternalTokens lib tc now (request\<lparr>scopes := xs\<rparr>) response options s) =
                 (case truthyString (refresh_token response) of
                    None \<Rightarrow>
                      setAccessTokenCredential (storage tc) a
                        (setIdTokenCredential (storage tc)
                           (createIdTokenEntity (accountHomeAccountId acc) env idToken
                              (clientId tc) tid)
                           (setAccount (storage tc) acc s))
                  | Some rt \<Rightarrow>
                      setRefreshTokenCredential (storage tc)
                        (createRefreshTokenEntity (accountHomeAccountId acc) env rt (clientId tc))
                        (setAccessTokenCredential (storage tc) a
                           (setIdTokenCredential (storage tc)
                              (createIdTokenEntity (accountHomeAccountId acc) env idToken
                                 (clientId tc) tid)
                              (setAccount (storage tc) acc s))))))"
proof -
  note p = printScopes_canonical [OF assms]
  note eq = loadExternalTokens_scopes [OF p, of lib tc now request response options s]
  have tgt: "at_target a = printScopes xs"
    if r: "fst (loadExternalTokens lib tc now (request\<lparr>scopes := xs\<rparr>) response options s) = Inr r"
      and a: "cr_accessToken r = Some a" for r a
  proof -
    from loadExternalTokens_success [OF r] obtain acc env tid idToken where
      "loadExternalTokens lib tc now (request\<lparr>scopes := xs\<rparr>) response options s =
         newCacheRecord tc now (request\<lparr>scopes := xs\<rparr>) response options idToken acc env tid
           (setAccount (storage tc) acc s)"
      by blast
    with r a newCacheRecord_target [of tc now "request\<lparr>scopes := xs\<rparr>" response options idToken
        acc env tid "setAccount (storage tc) acc s" r a]
    show ?thesis by simp
  qed
  have guarded: "at_target a = printScopes xs \<and>
        (\<exists>r' a'. fst (loadExternalTokens lib tc now (request\<lparr>scopes := ys\<rparr>) response
                        options s) = Inr r' \<and>
                 cr_accessToken r' = Some a' \<and>
                 at_target a' = printScopes ys \<and>
                 at_target a' = at_target a \<and>
                 generateAccessTokenKey a' = generateAccessTokenKey a)"
    if r: "fst (loadExternalTokens lib tc now (request\<lparr>scopes := xs\<rparr>) response options s) = Inr r"
      and a: "cr_accessToken r = Some a" for r a
    using tgt [OF r a] r a p unfolding eq by auto
  have valid: "\<exists>r a r' a'.
               fst (loadExternalTokens lib tc now (request\<lparr>scopes := xs\<rparr>) response options s)
                 = Inr r \<and>
               cr_accessToken r = Some a \<and>
               fst (loadExternalTokens lib tc now (request\<lparr>scopes := ys\<rparr>) response options s)
                 = Inr r' \<and>
               cr_accessToken r' = Some a' \<and>
               at_target a = printScopes xs \<and>
               at_target a' = printScopes ys \<and>
               printScopes xs = printScopes ys \<and>
               generateAccessTokenKey a =
                 toLowerCase (joinStrings ''-''
                   [accountHomeAccountId acc, env, clientId tc, tid, printScopes xs]) \<and>
               generateAccessTokenKey a' = generateAccessTokenKey a \<and>
               snd (loadExternalTokens lib tc now (request\<lparr>scopes := xs\<rparr>) response options s) =
                 (case truthyString (refresh_token response) of
                    None \<Rightarrow>
                      setAccessTokenCredential (storage tc) a
                        (setIdTokenCredential (storage tc)
                           (createIdTokenEntity (accountHomeAccountId acc) env idToken
                              (clientId tc) tid)
                           (setAccount (storage tc) acc s))
                  | Some rt \<Rightarrow>
                      setRefreshTokenCredential (storage tc)
                        (createRefreshTokenEntity (accountHomeAccountId acc) env rt (clientId tc))
                        (setAccessTokenCredential (storage tc) a
                           (setIdTokenCredential (storage tc)
                              (createIdTokenEntity (accountHomeAccountId acc) env idToken
                                 (clientId tc) tid)
                              (setAccount (storage tc) acc s))))"
    if res: "resolvedAccount lib request response options = Some (acc, env, tid)"
      and idt: "truthyString (id_token response) = Some idToken"
      and browser: "isBrowserEnvironment tc"
      and tok: "truthyString (access_token response) = Some tok"
      and ein: "truthyNumber (expires_in response) = Some ein"
      and ext: "truthyNumber (extendedExpiresOn options) = Some extOn"
    for acc env tid idToken tok ein extOn
  proof -
    have run: "loadExternalTokens lib tc now (request\<lparr>scopes := xs\<rparr>) response options s =
        newCacheRecord tc now (request\<lparr>scopes := xs\<rparr>) response options idToken acc env tid
          (setAccount (storage tc) acc s)"
      using loadExternalTokens_run [of lib "request\<lparr>scopes := xs\<rparr>" response options acc env tid
          idToken tc now s] res idt browser
      by (simp add: resolvedAccount_scopes)
    from newCacheRecord_browser_valid [OF browser tok ein ext, of now "request\<lparr>scopes := xs\<rparr>"
        idToken acc env tid "setAccount (storage tc) acc s"]
    obtain r a where
      nr: "newCacheRecord tc now (request\<lparr>scopes := xs\<rparr>) response options idToken acc env tid
             (setAccount (storage tc) acc s) =
           (Inr r,
            case truthyString (refresh_token response) of
              None \<Rightarrow>
                setAccessTokenCredential (storage tc) a
                  (setIdTokenCredential (storage tc)
                     (createIdTokenEntity (accountHomeAccountId acc) env idToken (clientId tc) tid)
                     (setAccount (storage tc) acc s))
            | Some rt \<Rightarrow>
                setRefreshTokenCredential (storage tc)
                  (createRefreshTokenEntity (accountHomeAccountId acc) env rt (clientId tc))
                  (setAccessTokenCredential (storage tc) a
                     (setIdTokenCredential (storage tc)
                        (createIdTokenEntity (accountHomeAccountId acc) env idToken (clientId tc) tid)
                        (setAccount (storage tc) acc s))))"
      and ra: "cr_accessToken r = Some a"
      and a: "a = createAccessTokenEntity (accountHomeAccountId acc) env tok (clientId tc) tid
                 (printScopes (scopes (request\<lparr>scopes := xs\<rparr>)))
                 (case truthyNumber (expiresOn options) of Some e \<Rightarrow> e | None \<Rightarrow> ein + now)
                 extOn"
      by blast
    have fr: "fst (loadExternalTokens lib tc now (request\<lparr>scopes := xs\<rparr>) response options s)
        = Inr r"
      by (simp add: run nr)
    have target: "at_target a = printScopes xs"
      by (simp add: a createAccessTokenEntity_def)
    have key: "generateAccessTokenKey a =
        toLowerCase (joinStrings ''-''
          [accountHomeAccountId acc, env, clientId tc, tid, printScopes xs])"
      by (simp add: a createAccessTokenEntity_def generateAccessTokenKey_def)
    have store: "snd (loadExternalTokens lib tc now (request\<lparr>scopes := xs\<rparr>) response options s) =
        (case truthyString (refresh_token response) of
           None \<Rightarrow>
             setAccessTokenCredential (storage tc) a
               (setIdTokenCredential (storage tc)
                  (createIdTokenEntity (accountHomeAccountId acc) env idToken (clientId tc) tid)
                  (setAccount (storage tc) acc s))
         | Some rt \<Rightarrow>
             setRefreshTokenCredential (storage tc)
               (createRefreshTokenEntity (accountHomeAccountId acc) env rt (clientId tc))
               (setAccessTokenCredential (storage tc) a
                  (setIdTokenCredential (storage tc)
                     (createIdTokenEntity (accountHomeAccountId acc) env idToken (clientId tc) tid)
                     (setAccount (storage tc) acc s))))"
      by (simp add: run nr)
    from guarded [OF fr ra] obtain r' a' where
      "fst (loadExternalTokens lib tc now (request\<lparr>scopes := ys\<rparr>) response options s) = Inr r'"
      "cr_accessToken r' = Some a'" "at_target a' = printScopes ys"
      "generateAccessTokenKey a' = generateAccessTokenKey a"
      by blast
    with fr ra target key store p show ?thesis
      by blast
  qed
  from eq guarded valid show ?thesis
    by blast
qed

text \<open>
  The lists \<open>User.Read, openid, user.read\<close> and \<open>OpenId, USER.READ\<close>: both entities carry
  \<open>openid user.read\<close> and the same key, and the entity is in the store.
\<close>

theorem scope_canonicalization_witness:
  "\<exists>r a r' a'.
     fst (loadExternalTokens exampleLib browserCache 1000
            (accountRequest\<lparr>scopes := [''User.Read'', ''openid'', ''user.read'']\<rparr>)
            responseFull optionsExtended []) = Inr r \<and>
     cr_accessToken r = Some a \<and>
     fst (loadExternalTokens exampleLib browserCache 1000
            (accountRequest\<lparr>scopes := [''OpenId'', ''USER.READ'']\<rparr>)
            responseFull optionsExtended []) = Inr r' \<and>
     cr_accessToken r' = Some a' \<and>
     at_target a = ''openid user.read'' \<and>
     at_target a' = ''openid user.read'' \<and>
     generateAccessTokenKey a = ''uid.utid-login.example.com-app-utid-openid user.read'' \<and>
     generateAccessTokenKey a' = ''uid.utid-login.example.com-app-utid-openid user.read'' \<and>
     snd (loadExternalTokens exampleLib browserCache 1000
            (accountRequest\<lparr>scopes := [''User.Read'', ''openid'', ''user.read'']\<rparr>)
            responseFull optionsExtended []) =
       [SetRefreshTokenCredential
          (createRefreshTokenEntity ''uid.utid'' ''login.example.com'' ''RT1'' ''app''),
        SetAccessTokenCredential a,
        SetIdTokenCredential
          (createIdTokenEntity ''uid.utid'' ''login.example.com'' ''jwt'' ''app'' ''utid''),
        SetAccount (createGenericAccount ''uid.utid'' (AuthToken ''jwt'') ''login.example.com'')]"
proof -
  have same: "set (map toLowerCase [''User.Read'', ''openid'', ''user.read'']) =
        set (map toLowerCase [''OpenId'', ''USER.READ''])"
    by (auto simp: toLowerCase_def toLowerCaseChar_def)
  have pre: "resolvedAccount exampleLib accountRequest responseFull optionsExtended =
      Some (createGenericAccount ''uid.utid'' (AuthToken ''jwt'') ''login.example.com'',
            ''login.example.com'', ''utid'') \<and>
    truthyString (id_token responseFull) = Some ''jwt'' \<and>
    isBrowserEnvironment browserCache \<and>
    truthyString (access_token responseFull) = Some ''AT1'' \<and>
    truthyNumber (expires_in responseFull) = Some 3600 \<and>
    truthyNumber (extendedExpiresOn optionsExtended) = Some 8200"
    by (simp add: resolvedAccount_def example_defs input_defs)
  have scope: "printScopes [''User.Read'', ''openid'', ''user.read''] = ''openid user.read''"
    "printScopes [''OpenId'', ''USER.READ''] = ''openid user.read''"
    by (simp_all add: printScopes_def toLowerCase_def toLowerCaseChar_def)
  have key: "toLowerCase ''uid.utid-login.example.com-app-utid-openid user.read'' =
      ''uid.utid-login.example.com-app-utid-openid user.read''"
    by (simp add: toLowerCase_def toLowerCaseChar_def)
  have rt: "truthyString (refresh_token responseFull) = Some ''RT1''"
    "clientId browserCache = ''app''"
    "storage browserCache = recordingStorage"
    by (simp_all add: example_defs input_defs)
  note inst = scope_canonicalization [OF same, THEN conjunct2, THEN conjunct2, rule_format,
      OF pre, of 1000 "[]"]
  show ?thesis
    using inst
    apply (elim exE conjE)
    subgoal for r a r' a'
      apply (rule exI [of _ r], rule exI [of _ a], rule exI [of _ r'], rule exI [of _ a'])
      apply (simp add: scope key rt recordingStorage_def)
      done
    done
qed

section \<open>Clearing the cache on logout\<close>

text \<open>
  C8: \<^verbatim>\<open>clearCacheOnLogout\<close> with an account, on a store whose active account can be read
  (and reset): the active-account marker is cleared exactly when the stored active account
  equals the given one (\<open>s1\<close> is the store after that step), then the account is removed
  by its derived cache key. The call does not throw: when the removal throws, the error
  is swallowed and the store stays as it was before the removal.
\<close>

theorem logout_clears_account:
  assumes "getActiveAccount (browserStorage ic) s = Inr active"
    and "if accountInfoIsEqual lib a active False
         then setActiveAccount (browserStorage ic) None s = Inr s1
         else s1 = s"
  shows "fst (clearCacheOnLogout lib ic (Some a) s) = Inr () \<and>
         (\<forall>s2. removeAccount (browserStorage ic) (generateAccountCacheKey lib a) s1 = Inr s2 \<longrightarrow>
               snd (clearCacheOnLogout lib ic (Some a) s) = s2) \<and>
         (\<forall>e. removeAccount (browserStorage ic) (generateAccountCacheKey lib a) s1 = Inl e \<longrightarrow>
               snd (clearCacheOnLogout lib ic (Some a) s) = s1)"
  using assms
  by (auto simp: clearCacheOnLogout_def prog_defs split: sum.splits if_splits)

text \<open>
  Logging out the active account: the marker is reset and the account removed; with a
  removal that throws, the marker is reset and nothing else changes. Logging out another
  account leaves the marker.
\<close>

theorem logout_clears_account_witness:
  "clearCacheOnLogout exampleLib recordingClient (Some exampleAccount)
     [SetActiveAccount (Some exampleAccount)] =
     (Inr (), [RemoveAccount ''uid.utid-login.example.com-utid'', SetActiveAccount None,
               SetActiveAccount (Some exampleAccount)]) \<and>
   clearCacheOnLogout exampleLib throwingClient (Some exampleAccount)
     [SetActiveAccount (Some exampleAccount)] =
     (Inr (), [SetActiveAccount None, SetActiveAccount (Some exampleAccount)]) \<and>
   clearCacheOnLogout exampleLib throwingClient (Some exampleAccount) [] = (Inr (), [])"
proof -
  have g1: "getActiveAccount (browserStorage recordingClient)
      [SetActiveAccount (Some exampleAccount)] = Inr (Some exampleAccount)"
    and g2: "getActiveAccount (browserStorage throwingClient)
      [SetActiveAccount (Some exampleAccount)] = Inr (Some exampleAccount)"
    and g3: "getActiveAccount (browserStorage throwingClient) [] = Inr None"
    by (simp_all add: example_defs client_defs)
  have m1: "if accountInfoIsEqual exampleLib exampleAccount (Some exampleAccount) False
      then setActiveAccount (browserStorage recordingClient) None
             [SetActiveAccount (Some exampleAccount)] =
           Inr [SetActiveAccount None, SetActiveAccount (Some exampleAccount)]
      else [SetActiveAccount None, SetActiveAccount (Some exampleAccount)] =
           [SetActiveAccount (Some exampleAccount)]"
    and m2: "if accountInfoIsEqual exampleLib exampleAccount (Some exampleAccount) False
      then setActiveAccount (browserStorage throwingClient) None
             [SetActiveAccount (Some exampleAccount)] =
           Inr [SetActiveAccount None, SetActiveAccount (Some exampleAccount)]
      else [SetActiveAccount None, SetActiveAccount (Some exampleAccount)] =
           [SetActiveAccount (Some exampleAccount)]"
    and m3: "if accountInfoIsEqual exampleLib exampleAccount None False
      then setActiveAccount (browserStorage throwingClient) None [] = Inr []
      else [] = ([] :: storage_call list)"
    by (simp_all add: example_defs client_defs)
  from logout_clears_account [OF g1 m1] logout_clears_account [OF g2 m2]
    logout_clears_account [OF g3 m3]
  show ?thesis
    by (simp add: prod_eq_iff example_defs client_defs)
qed

text \<open>
  C9, as amended: without an account, \<^verbatim>\<open>clearCacheOnLogout\<close> never throws, whatever the
  storage and crypto collaborators do: it clears the cache and, when that returned, the
  keystore, and keeps what a failing step leaves. With an account it does not throw,
  whatever \<^verbatim>\<open>removeAccount\<close> does, provided that the read of the active account and, when
  the accounts are equal, the reset of the marker return: these two calls are made
  outside the try block.
\<close>

theorem logout_swallows_clearing_failures:
  "fst (clearCacheOnLogout lib ic None s) = Inr () \<and>
   snd (clearCacheOnLogout lib ic None s) =
     (case clear (browserStorage ic) s of
        Inl e \<Rightarrow> s
      | Inr s1 \<Rightarrow> (case clearKeystore (browserCrypto ic) s1 of Inl e \<Rightarrow> s1 | Inr s2 \<Rightarrow> s2)) \<and>
   (\<forall>a active.
      getActiveAccount (browserStorage ic) s = Inr active \<and>
      (accountInfoIsEqual lib a active False \<longrightarrow>
         (\<exists>s1. setActiveAccount (browserStorage ic) None s = Inr s1)) \<longrightarrow>
      fst (clearCacheOnLogout lib ic (Some a) s) = Inr ())"
  by (auto simp: clearCacheOnLogout_def prog_defs split: sum.splits)

text \<open>
  A full clear that succeeds, one whose keystore clear throws, one whose cache clear
  throws, and the logout of an account whose removal throws: none throws.
\<close>

theorem logout_swallows_clearing_failures_witness:
  "clearCacheOnLogout exampleLib recordingClient None [] = (Inr (), [ClearKeystore, Clear]) \<and>
   clearCacheOnLogout exampleLib keystoreThrowingClient None [] = (Inr (), [Clear]) \<and>
   clearCacheOnLogout exampleLib throwingClient None [] = (Inr (), []) \<and>
   fst (clearCacheOnLogout exampleLib throwingClient (Some exampleAccount) []) = Inr ()"
proof -
  have g: "getActiveAccount (browserStorage throwingClient) [] = Inr None \<and>
      (accountInfoIsEqual exampleLib exampleAccount None False \<longrightarrow>
         (\<exists>s1. setActiveAccount (browserStorage throwingClient) None [] = Inr s1))"
    by (simp add: example_defs client_defs)
  from logout_swallows_clearing_failures [of exampleLib recordingClient "[]"]
    logout_swallows_clearing_failures [of exampleLib keystoreThrowingClient "[]"]
    logout_swallows_clearing_failures [of exampleLib throwingClient "[]"] g
  show ?thesis
    by (simp add: prod_eq_iff example_defs client_defs)
qed

text \<open>
  C9 as stated fails: with a storage adapter whose \<^verbatim>\<open>getActiveAccount\<close> throws, the logout
  of an account throws the adapter's error.
\<close>

theorem logout_throws_counterexample:
  "getActiveAccount (browserStorage unreadableClient) [] = Inl ''storage_unavailable'' \<and>
   clearCacheOnLogout exampleLib unreadableClient (Some exampleAccount) [] =
     (Inl ''storage_unavailable'', []) \<and>
   fst (clearCacheOnLogout exampleLib unreadableClient (Some exampleAccount) []) \<noteq> Inr ()"
  by (simp add: clearCacheOnLogout_def prog_defs example_defs client_defs)

end
